theory Spec2Isabelle
  imports Complex_Main "HOL-Library.AList"
begin

section \<open>Python values, exceptions and list primitives\<close>

text \<open>
  The module \<^verbatim>\<open>dendropy/model/birthdeath.py\<close> is embedded function by function.
  Python floats are modelled as \<^typ>\<open>real\<close> (exact arithmetic), Python integers as
  \<^typ>\<open>int\<close>, and every \<^verbatim>\<open>raise\<close> of the source (and every exception of a
  builtin the source calls) as a value \<open>Inl e\<close> of the sum type \<open>error + 'a\<close>.
\<close>

datatype error =
    ValueError
  | TypeError
  | IndexError
  | ZeroDivisionError
  | AttributeError
  | AssertionError
  | KeyError
  | TreeSimTotalExtinctionException

text \<open>The value of \<^verbatim>\<open>lh\<close>: a finite float or \<^verbatim>\<open>float("-inf")\<close>.\<close>

datatype pyfloat = Finite real | NegInf

text \<open>\<^verbatim>\<open>math.log(v)\<close> raises \<^verbatim>\<open>ValueError\<close> (math domain error) unless \<open>v > 0\<close>.\<close>

definition math_log :: "real \<Rightarrow> error + real" where
  "math_log v = (if v \<le> 0 then Inl ValueError else Inr (ln v))"

text \<open>\<^verbatim>\<open>sum(map(math.log, seq))\<close>: the first failing logarithm raises.\<close>

fun sum_math_log :: "int list \<Rightarrow> error + real" where
  "sum_math_log [] = Inr 0"
| "sum_math_log (i # rest) =
     (case math_log (real_of_int i) of
        Inl e \<Rightarrow> Inl e
      | Inr l \<Rightarrow> (case sum_math_log rest of Inl e \<Rightarrow> Inl e | Inr s \<Rightarrow> Inr (l + s)))"

text \<open>\<^verbatim>\<open>max(iterable)\<close> raises \<^verbatim>\<open>ValueError\<close> on an empty iterable.\<close>

definition py_max :: "int list \<Rightarrow> error + int" where
  "py_max vs = (case vs of [] \<Rightarrow> Inl ValueError | v # rest \<Rightarrow> Inr (fold max rest v))"

text \<open>
  The slice \<^verbatim>\<open>xs[i:j]\<close>: a negative bound counts from the end, and both bounds are
  clamped to the list.
\<close>

definition py_slice :: "'a list \<Rightarrow> int \<Rightarrow> int \<Rightarrow> 'a list" where
  "py_slice xs i j =
     (let n = int (length xs);
          i' = (if i < 0 then max 0 (i + n) else min i n);
          j' = (if j < 0 then max 0 (j + n) else min j n)
      in take (nat j' - nat i') (drop (nat i') xs))"

text \<open>\<^verbatim>\<open>range(a, b)\<close> over Python integers.\<close>

definition py_range :: "int \<Rightarrow> int \<Rightarrow> int list" where
  "py_range a b = [a..b - 1]"

section \<open>The pure-birth maximum-likelihood fitter\<close>

text \<open>
  \<^verbatim>\<open>fit_pure_birth_model(**kwargs)\<close>. The tree collaborator is not part of the
  module: when \<^verbatim>\<open>tree\<close> is given, the ages are whatever
  \<^verbatim>\<open>tree.internal_node_ages(...)\<close> returns, so the model takes them as the field
  \<open>tree_ages\<close>. \<open>internal_node_ages\<close> is the keyword of that name (\<open>None\<close>: the key
  is absent), and \<open>ignore_failure\<close> is
  \<^verbatim>\<open>kwargs.get("ignore_likelihood_calculation_failure", False)\<close>.
\<close>

record fit_kwargs =
  tree_ages :: "real list option"
  internal_node_ages :: "real list option"
  ignore_failure :: bool

record fit_result =
  birth_rate :: real
  log_likelihood :: pyfloat

text \<open>\<^verbatim>\<open>x = sorted(internal_node_ages, reverse=True)\<close>\<close>

definition sorted_reverse :: "real list \<Rightarrow> real list" where
  "sorted_reverse ages = rev (sort ages)"

text \<open>\<^verbatim>\<open>max(nvec[idx] for idx, i in enumerate(x) if i >= st)\<close>\<close>

definition max_nvec_ge :: "real list \<Rightarrow> real \<Rightarrow> error + int" where
  "max_nvec_ge x st =
     (let nvec = py_range 2 (int (length x) + 2)
      in py_max (map (\<lambda>(idx, i). nvec ! idx)
                  (filter (\<lambda>(idx, i). i \<ge> st) (List.enumerate 0 x))))"

text \<open>
  The estimate \<^verbatim>\<open>smax\<close> together with \<^verbatim>\<open>lo\<close> and \<^verbatim>\<open>up\<close> (lines 659 to 674 of
  the source). \<^verbatim>\<open>x[0]\<close> raises \<^verbatim>\<open>IndexError\<close> on an empty list and the division
  raises \<^verbatim>\<open>ZeroDivisionError\<close> on a zero denominator.
\<close>

definition fit_smax :: "real list \<Rightarrow> error + (int \<times> int \<times> real)" where
  "fit_smax ages =
     (let x = sorted_reverse ages in
      case x of [] \<Rightarrow> Inl IndexError
      | st1 # _ \<Rightarrow>
        let st2 = 0;
            nv = filter (\<lambda>i. i < st1 \<and> i \<ge> st2) x in
        case max_nvec_ge x st1 of Inl e \<Rightarrow> Inl e
        | Inr lo \<Rightarrow>
          case max_nvec_ge x st2 of Inl e \<Rightarrow> Inl e
          | Inr up \<Rightarrow>
            let nv' = (if st1 \<le> hd x then map (\<lambda>i. i - st2) (st1 # nv)
                       else map (\<lambda>i. i - st2) nv) in
            case nv' of [] \<Rightarrow> Inl IndexError
            | nv0 # _ \<Rightarrow>
              let t1 = up - lo;
                  t2 = real_of_int lo * nv0;
                  t3 = sum_list (py_slice nv' 1 (up - lo + 1))
              in if t2 + t3 = 0 then Inl ZeroDivisionError
                 else Inr (lo, up, real_of_int t1 / (t2 + t3)))"

text \<open>The body of the \<^verbatim>\<open>try\<close> block: \<^verbatim>\<open>s1\<close>, \<^verbatim>\<open>s2\<close>, \<^verbatim>\<open>s3\<close> and their sum.\<close>

definition fit_lh_try :: "int \<Rightarrow> int \<Rightarrow> real \<Rightarrow> error + real" where
  "fit_lh_try lo up smax =
     (case sum_math_log (py_range lo up) of Inl e \<Rightarrow> Inl e
      | Inr s1 \<Rightarrow>
        case math_log smax of Inl e \<Rightarrow> Inl e
        | Inr l \<Rightarrow>
          let s2 = real_of_int (up - lo) * l;
              s3 = real_of_int (lo - up)
          in Inr (s1 + s2 + s3))"

text \<open>Lines 651 to 658: the ages come from the tree, or from the keyword, or the call
  raises \<^verbatim>\<open>TypeError\<close>.\<close>

definition fit_input_ages :: "fit_kwargs \<Rightarrow> error + real list" where
  "fit_input_ages kwargs =
     (case tree_ages kwargs of
        Some ages \<Rightarrow> Inr ages
      | None \<Rightarrow> (case internal_node_ages kwargs of
                   Some ages \<Rightarrow> Inr ages
                 | None \<Rightarrow> Inl TypeError))"

text \<open>
  The \<^verbatim>\<open>except ValueError\<close> handler raises when the flag is set and otherwise stores
  \<^verbatim>\<open>float("-inf")\<close>; any other exception of the \<^verbatim>\<open>try\<close> block propagates.
\<close>

definition fit_pure_birth_model :: "fit_kwargs \<Rightarrow> error + fit_result" where
  "fit_pure_birth_model kwargs =
     (case fit_input_ages kwargs of
        Inl e \<Rightarrow> Inl e
      | Inr ages \<Rightarrow>
         (case fit_smax ages of
            Inl e \<Rightarrow> Inl e
          | Inr (lo, up, smax) \<Rightarrow>
             (case fit_lh_try lo up smax of
                Inr lh \<Rightarrow> Inr \<lparr>birth_rate = smax, log_likelihood = Finite lh\<rparr>
              | Inl e \<Rightarrow>
                 (if e = ValueError then
                    (if ignore_failure kwargs then Inl ValueError
                     else Inr \<lparr>birth_rate = smax, log_likelihood = NegInf\<rparr>)
                  else Inl e))))"

section \<open>The random number generator\<close>

text \<open>
  The generator (\<^verbatim>\<open>random.Random\<close> or equivalent) is a collaborator of the module. It is
  modelled by the outcomes it is going to produce: the sequence of unit-rate exponential
  variates, the sequence of uniform variates on \<open>[0, 1)\<close> and the sequence of standard
  normal variates. Each call consumes the head of the sequence it reads and scales it:
  \<^verbatim>\<open>expovariate(lambd)\<close> is a unit-rate variate divided by \<^verbatim>\<open>lambd\<close> (a zero
  \<^verbatim>\<open>lambd\<close> raises \<^verbatim>\<open>ZeroDivisionError\<close>), \<^verbatim>\<open>gauss(mu, sigma)\<close> is
  \<^verbatim>\<open>mu + z * sigma\<close>, and \<^verbatim>\<open>uniform(0, 1)\<close> is \<^verbatim>\<open>random()\<close>.
\<close>

record rng =
  expo_draws :: "nat \<Rightarrow> real"
  unif_draws :: "nat \<Rightarrow> real"
  norm_draws :: "nat \<Rightarrow> real"

definition rng_random :: "rng \<Rightarrow> real \<times> rng" where
  "rng_random r = (unif_draws r 0, r\<lparr>unif_draws := (\<lambda>k. unif_draws r (Suc k))\<rparr>)"

definition rng_uniform01 :: "rng \<Rightarrow> real \<times> rng" where
  "rng_uniform01 r = rng_random r"

definition rng_expovariate :: "real \<Rightarrow> rng \<Rightarrow> error + (real \<times> rng)" where
  "rng_expovariate lambd r =
     (if lambd = 0 then Inl ZeroDivisionError
      else Inr (expo_draws r 0 / lambd, r\<lparr>expo_draws := (\<lambda>k. expo_draws r (Suc k))\<rparr>))"

definition rng_gauss :: "real \<Rightarrow> real \<Rightarrow> rng \<Rightarrow> real \<times> rng" where
  "rng_gauss mu sigma r =
     (mu + norm_draws r 0 * sigma, r\<lparr>norm_draws := (\<lambda>k. norm_draws r (Suc k))\<rparr>)"

section \<open>Nodes, trees and taxon namespaces\<close>

text \<open>
  The tree library (\<^verbatim>\<open>dendropy.Tree\<close>, its nodes, edges and taxon namespaces) is a
  collaborator too. A node object is modelled by an identity (a number, standing for the
  object), the shape of a tree by the nesting of the identities, and the attributes of
  the node objects by a store from identities to attribute values, so that an object
  keeps its attributes when it is detached from the tree. \<open>edge_length\<close> is
  \<^verbatim>\<open>nd.edge.length\<close> (\<open>None\<close> is Python's \<^verbatim>\<open>None\<close>); \<open>nd_birth_rate\<close> and
  \<open>nd_death_rate\<close> are the attributes \<^verbatim>\<open>nd.birth_rate\<close> and \<^verbatim>\<open>nd.death_rate\<close>
  (\<open>None\<close>: the node has no such attribute); \<open>extinct_attr\<close> is the attribute named
  by \<^verbatim>\<open>extinct_attr_name\<close> (\<open>None\<close>: absent), taken to be a name of its own;
  \<open>taxon\<close> is the label of \<^verbatim>\<open>nd.taxon\<close>.
\<close>

datatype attr_val = AttrNone | AttrBool bool

record node_attrs =
  edge_length :: "real option"
  nd_birth_rate :: "real option"
  nd_death_rate :: "real option"
  extinct_attr :: "attr_val option"
  taxon :: "string option"

definition new_node_attrs :: node_attrs where
  "new_node_attrs = \<lparr>edge_length = None, nd_birth_rate = None, nd_death_rate = None,
                      extinct_attr = None, taxon = None\<rparr>"

datatype node = Node (node_id: nat) (child_nodes: "node list")

type_synonym attr_store = "nat \<Rightarrow> node_attrs"

record taxon_namespace =
  ns_id :: nat
  ns_labels :: "string list"

record tree_obj =
  seed_node :: node
  node_store :: attr_store
  tree_namespace :: taxon_namespace

section \<open>Keyword arguments\<close>

datatype pyval =
    PyNone
  | PyBool bool
  | PyInt int
  | PyFloat real
  | PyStr string
  | PyTree tree_obj
  | PyTaxonNamespace taxon_namespace
  | PyRng rng

type_synonym kwargs = "(string \<times> pyval) list"

fun is_none :: "pyval \<Rightarrow> bool" where
  "is_none PyNone = True"
| "is_none _ = False"

text \<open>
  The variable \<^verbatim>\<open>rng\<close> holds whatever the caller passed. The functions look at it only
  when they draw: a method call (\<^verbatim>\<open>rng.expovariate\<close>, \<^verbatim>\<open>rng.random\<close>,
  \<^verbatim>\<open>rng.uniform\<close>) on a value that is no generator raises \<^verbatim>\<open>AttributeError\<close> at
  that moment, and a run that never draws never fails on it. \<open>is_rng\<close> is the test at
  every draw, and \<open>draws_of\<close> the draws that the value is going to produce; a value
  that is no generator produces none, and its draws are never read.
\<close>

fun is_rng :: "pyval \<Rightarrow> bool" where
  "is_rng (PyRng r) = True"
| "is_rng _ = False"

definition no_draws :: rng where
  "no_draws = \<lparr>expo_draws = (\<lambda>k. 0), unif_draws = (\<lambda>k. 0), norm_draws = (\<lambda>k. 0)\<rparr>"

fun draws_of :: "pyval \<Rightarrow> rng" where
  "draws_of (PyRng r) = r"
| "draws_of _ = no_draws"

text \<open>Truth value testing (\<^verbatim>\<open>if v:\<close>, \<^verbatim>\<open>not v\<close>).\<close>

fun truthy :: "pyval \<Rightarrow> bool" where
  "truthy PyNone = False"
| "truthy (PyBool b) = b"
| "truthy (PyInt i) = (i \<noteq> 0)"
| "truthy (PyFloat x) = (x \<noteq> 0)"
| "truthy (PyStr s) = (s \<noteq> [])"
| "truthy (PyTaxonNamespace ns) = (ns_labels ns \<noteq> [])"
| "truthy _ = True"

text \<open>The numeric value of a number (\<^verbatim>\<open>bool\<close> is a subclass of \<^verbatim>\<open>int\<close>).\<close>

fun py_num :: "pyval \<Rightarrow> real option" where
  "py_num (PyInt i) = Some (real_of_int i)"
| "py_num (PyFloat x) = Some x"
| "py_num (PyBool b) = Some (if b then 1 else 0)"
| "py_num _ = None"

text \<open>
  Ordering comparisons follow Python 3: between numbers they are numeric, otherwise
  they raise \<^verbatim>\<open>TypeError\<close>. Equality never raises.
\<close>

definition py_lt :: "pyval \<Rightarrow> pyval \<Rightarrow> error + bool" where
  "py_lt a b = (case (py_num a, py_num b) of
                  (Some x, Some y) \<Rightarrow> Inr (x < y)
                | _ \<Rightarrow> Inl TypeError)"

definition py_ge :: "pyval \<Rightarrow> pyval \<Rightarrow> error + bool" where
  "py_ge a b = (case (py_num a, py_num b) of
                  (Some x, Some y) \<Rightarrow> Inr (x \<ge> y)
                | _ \<Rightarrow> Inl TypeError)"

definition py_le :: "pyval \<Rightarrow> pyval \<Rightarrow> error + bool" where
  "py_le a b = (case (py_num a, py_num b) of
                  (Some x, Some y) \<Rightarrow> Inr (x \<le> y)
                | _ \<Rightarrow> Inl TypeError)"

definition py_eq_num :: "pyval \<Rightarrow> pyval \<Rightarrow> bool" where
  "py_eq_num a b = (case (py_num a, py_num b) of
                      (Some x, Some y) \<Rightarrow> x = y
                    | _ \<Rightarrow> False)"

definition kw_in :: "string \<Rightarrow> kwargs \<Rightarrow> bool" where
  "kw_in k kwargs = (case map_of kwargs k of None \<Rightarrow> False | Some _ \<Rightarrow> True)"

definition kw_get :: "string \<Rightarrow> pyval \<Rightarrow> kwargs \<Rightarrow> pyval" where
  "kw_get k d kwargs = (case map_of kwargs k of None \<Rightarrow> d | Some v \<Rightarrow> v)"

definition kw_pop :: "string \<Rightarrow> pyval \<Rightarrow> kwargs \<Rightarrow> pyval \<times> kwargs" where
  "kw_pop k d kwargs = (kw_get k d kwargs, AList.delete k kwargs)"

section \<open>The continuous-time simulator: arguments\<close>

text \<open>
  The local variables that lines 132 to 183 of \<^verbatim>\<open>birth_death_tree\<close> compute from
  \<^verbatim>\<open>**kwargs\<close>, under the source's names (\<open>tree_kw\<close>, \<open>taxon_namespace_kw\<close> and
  \<open>rng_kw\<close> are the variables \<^verbatim>\<open>tree\<close>, \<^verbatim>\<open>taxon_namespace\<close> and \<^verbatim>\<open>rng\<close>).
\<close>

record bd_config =
  target_num_extant_tips :: pyval
  target_num_extinct_tips :: pyval
  target_num_total_tips :: pyval
  max_time :: pyval
  gsa_ntax :: pyval
  is_add_extinct_attr :: pyval
  extinct_attr_name :: pyval
  is_retain_extinct_tips :: pyval
  is_assign_extant_taxa :: pyval
  is_assign_extinct_taxa :: pyval
  repeat_until_success :: pyval
  tree_kw :: pyval
  taxon_namespace_kw :: pyval
  rng_kw :: pyval
  terminate_at_full_tree :: bool

text \<open>
  The keys that the function pops, in the order of the source. \<^verbatim>\<open>tree\<close> and
  \<^verbatim>\<open>taxon_namespace\<close> are read with \<^verbatim>\<open>kwargs.get\<close> and stay in the dictionary.
\<close>

definition bd_popped_keys :: "string list" where
  "bd_popped_keys =
     [''num_extant_tips'', ''num_extinct_tips'', ''num_total_tips'', ''max_time'',
      ''gsa_ntax'', ''is_add_extinct_attr'', ''extinct_attr_name'',
      ''is_retain_extinct_tips'', ''is_assign_extant_taxa'', ''is_assign_extinct_taxa'',
      ''repeat_until_success'', ''rng'', ''ignore_unrecognized_keyword_arguments'']"

definition bd_leftover :: "kwargs \<Rightarrow> kwargs" where
  "bd_leftover kwargs = fold AList.delete bd_popped_keys kwargs"

text \<open>
  Lines 142 to 167: the pops, in the order of the source. \<open>GLOBAL_RNG\<close> is the
  module-level generator that \<^verbatim>\<open>kwargs.pop('rng', GLOBAL_RNG)\<close> falls back to. The
  result is the local variables, the value of
  \<^verbatim>\<open>ignore_unrecognized_keyword_arguments\<close> and what is left of \<^verbatim>\<open>kwargs\<close>.
\<close>

definition bd_pop_args :: "rng \<Rightarrow> kwargs \<Rightarrow> bd_config \<times> pyval \<times> kwargs" where
  "bd_pop_args GLOBAL_RNG kwargs =
     (let (v_extant, kw1) = kw_pop ''num_extant_tips'' PyNone kwargs;
          (v_extinct, kw2) = kw_pop ''num_extinct_tips'' PyNone kw1;
          (v_total, kw3) = kw_pop ''num_total_tips'' PyNone kw2;
          (v_max_time, kw4) = kw_pop ''max_time'' PyNone kw3;
          (v_gsa, kw5) = kw_pop ''gsa_ntax'' PyNone kw4;
          (v_add_attr, kw6) = kw_pop ''is_add_extinct_attr'' (PyBool True) kw5;
          (v_attr_name, kw7) = kw_pop ''extinct_attr_name'' (PyStr ''is_extinct'') kw6;
          (v_retain, kw8) = kw_pop ''is_retain_extinct_tips'' (PyBool False) kw7;
          (v_assign_extant, kw9) = kw_pop ''is_assign_extant_taxa'' (PyBool True) kw8;
          (v_assign_extinct, kw10) = kw_pop ''is_assign_extinct_taxa'' (PyBool True) kw9;
          (v_repeat, kw11) = kw_pop ''repeat_until_success'' (PyBool True) kw10;
          v_tree = kw_get ''tree'' PyNone kw11;
          v_taxon_namespace = kw_get ''taxon_namespace'' PyNone kw11;
          (v_rng, kw12) = kw_pop ''rng'' (PyRng GLOBAL_RNG) kw11;
          (v_ignore, kw13) = kw_pop ''ignore_unrecognized_keyword_arguments'' (PyBool False) kw12
      in (\<lparr>target_num_extant_tips = v_extant,
           target_num_extinct_tips = v_extinct,
           target_num_total_tips = v_total,
           max_time = v_max_time,
           gsa_ntax = v_gsa,
           is_add_extinct_attr = v_add_attr,
           extinct_attr_name = v_attr_name,
           is_retain_extinct_tips = v_retain,
           is_assign_extant_taxa = v_assign_extant,
           is_assign_extinct_taxa = v_assign_extinct,
           repeat_until_success = v_repeat,
           tree_kw = v_tree,
           taxon_namespace_kw = v_taxon_namespace,
           rng_kw = v_rng,
           terminate_at_full_tree = False\<rparr>, v_ignore, kw13))"

text \<open>Lines 168 to 183: the leftover keywords and the checks on \<^verbatim>\<open>gsa_ntax\<close>.\<close>

definition bd_check_gsa :: "bd_config \<Rightarrow> error + bd_config" where
  "bd_check_gsa cfg =
     (if is_none (gsa_ntax cfg) then Inr (cfg\<lparr>terminate_at_full_tree := True\<rparr>)
      else if is_none (target_num_extant_tips cfg) then Inl ValueError
      else if \<not> is_none (target_num_extinct_tips cfg) then Inl ValueError
      else if \<not> is_none (target_num_total_tips cfg) then Inl ValueError
      else (case py_lt (gsa_ntax cfg) (target_num_extant_tips cfg) of
              Inl e \<Rightarrow> Inl e
            | Inr b \<Rightarrow> if b then Inl ValueError else Inr cfg))"

text \<open>Lines 132 to 183 together.\<close>

definition bd_validate :: "rng \<Rightarrow> kwargs \<Rightarrow> error + bd_config" where
  "bd_validate GLOBAL_RNG kwargs =
     (if kw_in ''assign_taxa'' kwargs then Inl ValueError
      else if kw_in ''ntax'' kwargs then Inl ValueError
      else if \<not> kw_in ''num_extant_tips'' kwargs \<and> \<not> kw_in ''num_extinct_tips'' kwargs
              \<and> \<not> kw_in ''num_total_tips'' kwargs \<and> \<not> kw_in ''max_time'' kwargs
           then Inl ValueError
      else
        (case bd_pop_args GLOBAL_RNG kwargs of
           (cfg, v_ignore, kw_rest) \<Rightarrow>
             if kw_rest \<noteq> [] \<and> \<not> truthy v_ignore then Inl ValueError
             else bd_check_gsa cfg))"

text \<open>
  The invalid configurations as the specification lists them; an argument is given
  when it is passed with a value other than \<^verbatim>\<open>None\<close>.
\<close>

definition kw_given :: "string \<Rightarrow> kwargs \<Rightarrow> bool" where
  "kw_given k kwargs = (\<not> is_none (kw_get k PyNone kwargs))"

definition spec_invalid_configuration :: "kwargs \<Rightarrow> bool" where
  "spec_invalid_configuration kwargs =
     ((\<not> kw_given ''num_extant_tips'' kwargs \<and> \<not> kw_given ''num_extinct_tips'' kwargs
        \<and> \<not> kw_given ''num_total_tips'' kwargs \<and> \<not> kw_given ''max_time'' kwargs)
      \<or> (kw_given ''gsa_ntax'' kwargs \<and> \<not> kw_given ''num_extant_tips'' kwargs)
      \<or> (kw_given ''gsa_ntax'' kwargs
          \<and> (kw_given ''num_extinct_tips'' kwargs \<or> kw_given ''num_total_tips'' kwargs))
      \<or> (kw_given ''gsa_ntax'' kwargs
          \<and> py_lt (kw_get ''gsa_ntax'' PyNone kwargs) (kw_get ''num_extant_tips'' PyNone kwargs)
              = Inr True))"

text \<open>
  The keywords that \<^verbatim>\<open>birth_death_tree\<close> reads, and a call that passes a keyword
  which is none of them.
\<close>

definition bd_known_keys :: "string list" where
  "bd_known_keys = bd_popped_keys @ [''tree'', ''taxon_namespace'']"

definition unrecognized_keyword :: "kwargs \<Rightarrow> bool" where
  "unrecognized_keyword kwargs = list_ex (\<lambda>p. fst p \<notin> set bd_known_keys) kwargs"

text \<open>The four keywords that set a termination condition.\<close>

definition bd_termination_keys :: "string list" where
  "bd_termination_keys = [''num_extant_tips'', ''num_extinct_tips'', ''num_total_tips'', ''max_time'']"

text \<open>A concrete generator for worked examples: every exponential draw is \<open>1\<close>, every
  uniform draw \<open>1/2\<close> and every normal draw \<open>0\<close>.\<close>

definition example_rng :: rng where
  "example_rng = \<lparr>expo_draws = (\<lambda>k. 1), unif_draws = (\<lambda>k. 1 / 2), norm_draws = (\<lambda>k. 0)\<rparr>"

section \<open>Operations of the tree library\<close>

text \<open>
  Modelled from the spec: the node-graph interface of section 6 (create a child on a
  node, prune a subtree, collapse unifurcations, enumerate leaves, pre-order traversal,
  parent and child navigation) belongs to \<^verbatim>\<open>dendropy.Tree\<close> and
  \<^verbatim>\<open>dendropy.Node\<close>, which are not part of the module.
\<close>

text \<open>\<^verbatim>\<open>for nd in tree\<close>, \<^verbatim>\<open>nd.preorder_iter()\<close>: the nodes in pre-order.\<close>

fun preorder_nodes :: "node \<Rightarrow> node list" where
  "preorder_nodes (Node i cs) = Node i cs # concat (map preorder_nodes cs)"

definition preorder :: "node \<Rightarrow> nat list" where
  "preorder t = map node_id (preorder_nodes t)"

text \<open>The identities of the leaves, in pre-order (\<^verbatim>\<open>tree.leaf_nodes()\<close>).\<close>

fun leaf_nodes :: "node \<Rightarrow> nat list" where
  "leaf_nodes (Node i cs) = (if cs = [] then [i] else concat (map leaf_nodes cs))"

fun first_some :: "'a option list \<Rightarrow> 'a option" where
  "first_some [] = None"
| "first_some (Some x # rest) = Some x"
| "first_some (None # rest) = first_some rest"

text \<open>The subtree below the node object \<open>i\<close>, when the object is in the tree.\<close>

fun find_node :: "nat \<Rightarrow> node \<Rightarrow> node option" where
  "find_node i (Node j cs) =
     (if i = j then Some (Node j cs)
      else first_some (map (find_node i) cs))"

text \<open>Replace the subtree at the node object \<open>i\<close> by \<open>f\<close> of it.\<close>

fun update_node :: "nat \<Rightarrow> (node \<Rightarrow> node) \<Rightarrow> node \<Rightarrow> node" where
  "update_node i f (Node j cs) =
     (if i = j then f (Node j cs) else Node j (map (update_node i f) cs))"

text \<open>\<^verbatim>\<open>nd.new_child()\<close>: a new node object \<open>c\<close> becomes the last child of \<open>i\<close>.\<close>

definition new_child :: "nat \<Rightarrow> nat \<Rightarrow> node \<Rightarrow> node" where
  "new_child i c t = update_node i (\<lambda>n. Node (node_id n) (child_nodes n @ [Node c []])) t"

text \<open>\<^verbatim>\<open>nd.clear_child_nodes()\<close>\<close>

definition clear_child_nodes :: "nat \<Rightarrow> node \<Rightarrow> node" where
  "clear_child_nodes i t = update_node i (\<lambda>n. Node (node_id n) []) t"

text \<open>The parent of the node object \<open>i\<close> with its children (\<^verbatim>\<open>nd.parent_node\<close>).\<close>

fun parent_node :: "nat \<Rightarrow> node \<Rightarrow> node option" where
  "parent_node i (Node j cs) =
     (if list_ex (\<lambda>c. node_id c = i) cs then Some (Node j cs)
      else first_some (map (parent_node i) cs))"

text \<open>\<^verbatim>\<open>tree.prune_subtree(nd, suppress_unifurcations=False)\<close>: the node is removed
  from the children of its parent.\<close>

fun remove_subtree :: "nat \<Rightarrow> node \<Rightarrow> node" where
  "remove_subtree i (Node j cs) =
     Node j (map (remove_subtree i) (filter (\<lambda>c. node_id c \<noteq> i) cs))"

text \<open>
  \<^verbatim>\<open>tree.suppress_unifurcations()\<close>: every node with exactly one child is collapsed,
  children first. Below the root the child takes the place of the node and the edge
  length of the node is added to the child's; a root with one child takes over the
  children of that child. The result is the shape together with the attribute store.
\<close>

definition add_edge_length :: "real option \<Rightarrow> real option \<Rightarrow> real option" where
  "add_edge_length child parent =
     (case parent of None \<Rightarrow> child
      | Some p \<Rightarrow> (case child of None \<Rightarrow> Some p | Some c \<Rightarrow> Some (c + p)))"

fun suppress_below :: "node \<Rightarrow> attr_store \<Rightarrow> node \<times> attr_store"
  and suppress_children :: "node list \<Rightarrow> attr_store \<Rightarrow> node list \<times> attr_store" where
  "suppress_below (Node j cs) store =
     (case suppress_children cs store of
        (cs', store') \<Rightarrow>
          (case cs' of
             [c] \<Rightarrow> (c, store'(node_id c :=
                        (store' (node_id c))\<lparr>edge_length :=
                           add_edge_length (edge_length (store' (node_id c)))
                                           (edge_length (store' j))\<rparr>))
           | _ \<Rightarrow> (Node j cs', store')))"
| "suppress_children [] store = ([], store)"
| "suppress_children (c # cs) store =
     (case suppress_below c store of
        (c', store1) \<Rightarrow>
          (case suppress_children cs store1 of
             (cs', store2) \<Rightarrow> (c' # cs', store2)))"

definition suppress_unifurcations :: "node \<Rightarrow> attr_store \<Rightarrow> node \<times> attr_store" where
  "suppress_unifurcations t store =
     (case suppress_children (child_nodes t) store of
        (cs', store') \<Rightarrow>
          (case cs' of
             [c] \<Rightarrow> (Node (node_id t) (child_nodes c), store')
           | _ \<Rightarrow> (Node (node_id t) cs', store')))"

section \<open>Python sets of node objects\<close>

text \<open>
  \<^verbatim>\<open>extant_tips\<close> and \<^verbatim>\<open>extinct_tips\<close> are Python sets of node objects. A set is
  modelled by a list without repetitions. The order in which \<^verbatim>\<open>for nd in s\<close> visits
  a set is not fixed by the language (it follows the hashes of the objects), so the
  simulator takes it as the parameter \<open>set_order\<close>: the loop visits
  \<open>set_order s\<close>.
\<close>

definition set_add :: "nat \<Rightarrow> nat list \<Rightarrow> nat list" where
  "set_add x s = (if x \<in> set s then s else s @ [x])"

definition set_discard :: "nat \<Rightarrow> nat list \<Rightarrow> nat list" where
  "set_discard x s = removeAll x s"

text \<open>\<^verbatim>\<open>s.remove(x)\<close> raises \<^verbatim>\<open>KeyError\<close> when \<open>x\<close> is not in the set.\<close>

definition set_remove :: "nat \<Rightarrow> nat list \<Rightarrow> error + nat list" where
  "set_remove x s = (if x \<in> set s then Inr (removeAll x s) else Inl KeyError)"

section \<open>The weighted event selector\<close>

text \<open>
  Modelled from the spec: \<^verbatim>\<open>dendropy.calculate.probability.weighted_choice\<close> is not
  part of the module. Section 4.1: cumulative-weight selection against one uniform draw
  scaled to the sum of the weights; the call fails when no event is selected.
\<close>

fun weighted_index :: "real \<Rightarrow> real list \<Rightarrow> nat \<Rightarrow> nat option" where
  "weighted_index rnd [] i = None"
| "weighted_index rnd (w # ws) i =
     (if rnd - w < 0 then Some i else weighted_index (rnd - w) ws (Suc i))"

definition weighted_choice :: "'a list \<Rightarrow> real list \<Rightarrow> rng \<Rightarrow> error + ('a \<times> rng)" where
  "weighted_choice seq weights r =
     (case rng_uniform01 r of
        (u, r') \<Rightarrow>
          (case weighted_index (u * sum_list weights) weights 0 of
             None \<Rightarrow> Inl TypeError
           | Some i \<Rightarrow> if i < length seq then Inr (seq ! i, r') else Inl IndexError))"

section \<open>The continuous-time simulator: state and initialisation\<close>

record bd_args =
  arg_birth_rate :: real
  arg_death_rate :: real
  arg_birth_rate_sd :: real
  arg_death_rate_sd :: real

text \<open>A recorded time slice: the waiting time and, for every extant tip of that
  moment, its edge (named by the node at its head) and the length of the edge.\<close>

type_synonym time_slice = "real \<times> (nat \<times> real option) list"

text \<open>
  The mutable state of a run: the tree (shape, attribute store, the next unused object
  identity, taxon namespace), the local variables of the loop, and the generator.
\<close>

record bd_state =
  tree :: node
  store :: attr_store
  next_node :: nat
  namespace :: taxon_namespace
  extant_tips :: "nat list"
  extinct_tips :: "nat list"
  total_time :: real
  targetted_time_slices :: "time_slice list"
  rng_state :: rng

text \<open>What stays fixed during a run: the arguments, the variables computed from the
  keywords, the two initial sets and the iteration order of sets.\<close>

record bd_env =
  env_args :: bd_args
  env_cfg :: bd_config
  initial_extant_tip_set :: "nat list"
  initial_extinct_tip_set :: "nat list"
  set_order :: "nat list \<Rightarrow> nat list"

text \<open>\<^verbatim>\<open>if is_add_extinct_attr: setattr(nd, extinct_attr_name, v)\<close>\<close>

definition set_extinct_attr :: "bd_config \<Rightarrow> nat \<Rightarrow> attr_val \<Rightarrow> attr_store \<Rightarrow> attr_store" where
  "set_extinct_attr cfg i v s =
     (if truthy (is_add_extinct_attr cfg) then s(i := (s i)\<lparr>extinct_attr := Some v\<rparr>) else s)"

text \<open>The truth value of \<^verbatim>\<open>getattr(nd, extinct_attr_name, False)\<close>.\<close>

fun getattr_extinct :: "attr_val option \<Rightarrow> bool" where
  "getattr_extinct None = False"
| "getattr_extinct (Some AttrNone) = False"
| "getattr_extinct (Some (AttrBool b)) = b"

text \<open>
  Lines 191 to 204, the loop \<^verbatim>\<open>for nd in tree\<close> over a caller-supplied tree. The
  branch for a leaf whose flag is not true calls \<^verbatim>\<open>extinct_tips.append(nd)\<close> on a
  set, which has no such method: \<^verbatim>\<open>AttributeError\<close>.
\<close>

fun bd_partition_leaves ::
  "bd_config \<Rightarrow> node list \<Rightarrow> attr_store \<Rightarrow> nat list \<Rightarrow> nat list
     \<Rightarrow> error + (attr_store \<times> nat list \<times> nat list)" where
  "bd_partition_leaves cfg [] s extant extinct = Inr (s, extant, extinct)"
| "bd_partition_leaves cfg (nd # rest) s extant extinct =
     (if child_nodes nd = [] then
        (if getattr_extinct (extinct_attr (s (node_id nd))) then
           bd_partition_leaves cfg rest
             (set_extinct_attr cfg (node_id nd) (AttrBool False) s)
             (set_add (node_id nd) extant) extinct
         else Inl AttributeError)
      else bd_partition_leaves cfg rest
             (set_extinct_attr cfg (node_id nd) AttrNone s) extant extinct)"

text \<open>An object identity that no node of the tree has.\<close>

definition fresh_node :: "node \<Rightarrow> nat" where
  "fresh_node t = Suc (fold max (preorder t) 0)"

text \<open>
  Lines 186 to 220: the tree and the two sets. Nothing is drawn here, so the value of
  \<^verbatim>\<open>rng\<close> is not looked at.
\<close>

definition bd_init :: "bd_args \<Rightarrow> bd_config \<Rightarrow> error + bd_state" where
  "bd_init args cfg =
     (case tree_kw cfg of
        PyTree tr \<Rightarrow>
          (case (case taxon_namespace_kw cfg of
                   PyNone \<Rightarrow> Inr (tree_namespace tr)
                 | PyTaxonNamespace ns \<Rightarrow>
                     if ns_id (tree_namespace tr) = ns_id ns then Inr ns
                     else Inl AssertionError
                 | _ \<Rightarrow> Inl AssertionError) of
             Inl e \<Rightarrow> Inl e
           | Inr ns \<Rightarrow>
              (case bd_partition_leaves cfg (preorder_nodes (seed_node tr))
                      (node_store tr) [] [] of
                 Inl e \<Rightarrow> Inl e
               | Inr (s, extant, extinct) \<Rightarrow>
                   Inr \<lparr>tree = seed_node tr, store = s,
                        next_node = fresh_node (seed_node tr), namespace = ns,
                        extant_tips = extant, extinct_tips = extinct,
                        total_time = 0, targetted_time_slices = [],
                        rng_state = draws_of (rng_kw cfg)\<rparr>))
      | PyNone \<Rightarrow>
          (case (case taxon_namespace_kw cfg of
                   PyNone \<Rightarrow> Inr \<lparr>ns_id = 0, ns_labels = []\<rparr>
                 | PyTaxonNamespace ns \<Rightarrow> Inr ns
                 | _ \<Rightarrow> Inl TypeError) of
             Inl e \<Rightarrow> Inl e
           | Inr ns \<Rightarrow>
               Inr \<lparr>tree = Node 0 [],
                    store = set_extinct_attr cfg 0 (AttrBool False)
                      ((\<lambda>i. new_node_attrs)
                         (0 := new_node_attrs\<lparr>edge_length := Some 0,
                                nd_birth_rate := Some (arg_birth_rate args),
                                nd_death_rate := Some (arg_death_rate args)\<rparr>)),
                    next_node = 1, namespace = ns,
                    extant_tips = [0], extinct_tips = [],
                    total_time = 0, targetted_time_slices = [],
                    rng_state = draws_of (rng_kw cfg)\<rparr>)
      | _ \<Rightarrow> Inl AttributeError)"

section \<open>The continuous-time simulator: the loop\<close>

text \<open>\<^verbatim>\<open>target is not None and n >= target\<close>\<close>

definition reached :: "pyval \<Rightarrow> pyval \<Rightarrow> error + bool" where
  "reached n target = (if is_none target then Inr False else py_ge n target)"

text \<open>The conditions of the \<^verbatim>\<open>if\<close> statements are evaluated in turn; the first that
  holds breaks, one that raises ends the evaluation.\<close>

fun first_reached :: "(error + bool) list \<Rightarrow> error + bool" where
  "first_reached [] = Inr False"
| "first_reached (Inl e # rest) = Inl e"
| "first_reached (Inr b # rest) = (if b then Inr True else first_reached rest)"

text \<open>Lines 232 to 242: does the loop break at the top of this iteration?\<close>

definition bd_should_stop :: "bd_config \<Rightarrow> bd_state \<Rightarrow> error + bool" where
  "bd_should_stop cfg st =
     (let n_extant = PyInt (int (length (extant_tips st)));
          n_extinct = PyInt (int (length (extinct_tips st)));
          n_total = PyInt (int (length (extant_tips st)) + int (length (extinct_tips st)))
      in if is_none (gsa_ntax cfg) then
           first_reached
             [reached n_extant (target_num_extant_tips cfg),
              reached n_extinct (target_num_extinct_tips cfg),
              reached n_total (target_num_total_tips cfg),
              reached (PyFloat (total_time st)) (max_time cfg)]
         else py_ge n_extant (gsa_ntax cfg))"

text \<open>The rates of a node after lines 249 to 252 have given it the defaults.\<close>

definition node_birth_rate :: "bd_args \<Rightarrow> node_attrs \<Rightarrow> real" where
  "node_birth_rate args a =
     (case nd_birth_rate a of None \<Rightarrow> arg_birth_rate args | Some b \<Rightarrow> b)"

definition node_death_rate :: "bd_args \<Rightarrow> node_attrs \<Rightarrow> real" where
  "node_death_rate args a =
     (case nd_death_rate a of None \<Rightarrow> arg_death_rate args | Some d \<Rightarrow> d)"

text \<open>Lines 248 to 256: the attribute store after the defaults, and the two parallel
  lists \<^verbatim>\<open>event_rates\<close> and \<^verbatim>\<open>event_nodes\<close>.\<close>

definition default_rates :: "bd_args \<Rightarrow> nat list \<Rightarrow> attr_store \<Rightarrow> attr_store" where
  "default_rates args nds s =
     fold (\<lambda>i s'. s'(i := (s' i)\<lparr>nd_birth_rate := Some (node_birth_rate args (s' i)),
                                 nd_death_rate := Some (node_death_rate args (s' i))\<rparr>))
          nds s"

definition event_rates_of :: "bd_args \<Rightarrow> attr_store \<Rightarrow> nat list \<Rightarrow> real list" where
  "event_rates_of args s nds =
     concat (map (\<lambda>i. [node_birth_rate args (s i), node_death_rate args (s i)]) nds)"

definition event_nodes_of :: "nat list \<Rightarrow> (nat \<times> bool) list" where
  "event_nodes_of nds = concat (map (\<lambda>i. [(i, True), (i, False)]) nds)"

text \<open>Lines 267 to 271: the snapshot of the extant edges.\<close>

definition edge_and_start_length :: "attr_store \<Rightarrow> nat list \<Rightarrow> (nat \<times> real option) list" where
  "edge_and_start_length s nds = map (\<lambda>i. (i, edge_length (s i))) nds"

text \<open>Lines 276 to 280: \<^verbatim>\<open>nd.edge.length += waiting_time\<close>, or the waiting time itself
  when the length is \<^verbatim>\<open>None\<close>.\<close>

definition add_waiting_time :: "real \<Rightarrow> nat list \<Rightarrow> attr_store \<Rightarrow> attr_store" where
  "add_waiting_time w nds s =
     fold (\<lambda>i s'. s'(i := (s' i)\<lparr>edge_length :=
                       (case edge_length (s' i) of None \<Rightarrow> Some w | Some l \<Rightarrow> Some (l + w))\<rparr>))
          nds s"

text \<open>Lines 292 to 303: a birth on the node \<open>nd\<close> (already removed from the extant
  set).\<close>

definition bd_birth :: "bd_env \<Rightarrow> nat \<Rightarrow> bd_state \<Rightarrow> bd_state" where
  "bd_birth env nd st =
     (let args = env_args env;
          s0 = set_extinct_attr (env_cfg env) nd AttrNone (store st);
          c1 = next_node st;
          c2 = Suc (next_node st);
          t' = new_child nd c2 (new_child nd c1 (tree st));
          b = node_birth_rate args (s0 nd);
          d = node_death_rate args (s0 nd);
          (g1, r1) = rng_gauss 0 (arg_birth_rate_sd args) (rng_state st);
          (g2, r2) = rng_gauss 0 (arg_death_rate_sd args) r1;
          (g3, r3) = rng_gauss 0 (arg_birth_rate_sd args) r2;
          (g4, r4) = rng_gauss 0 (arg_death_rate_sd args) r3;
          s1 = s0(c1 := new_node_attrs\<lparr>edge_length := Some 0,
                          nd_birth_rate := Some (b + g1), nd_death_rate := Some (d + g2)\<rparr>);
          s2 = s1(c2 := new_node_attrs\<lparr>edge_length := Some 0,
                          nd_birth_rate := Some (b + g3), nd_death_rate := Some (d + g4)\<rparr>)
      in st\<lparr>tree := t', store := s2, next_node := Suc (Suc (next_node st)),
            extant_tips := set_add c2 (set_add c1 (extant_tips st)),
            rng_state := r4\<rparr>)"

datatype break_site = TargetReached | SliceRecorded | ExtinctWithSlices

datatype step_result = Continue bd_state | Break break_site bd_state | Raise error

text \<open>Lines 319 to 325: the restart after a total extinction.\<close>

definition bd_restart :: "bd_env \<Rightarrow> bd_state \<Rightarrow> bd_state" where
  "bd_restart env st =
     (let extant = initial_extant_tip_set env;
          extinct = initial_extinct_tip_set env;
          (t', s') = fold (\<lambda>nd (t, s). (clear_child_nodes nd t,
                                          set_extinct_attr (env_cfg env) nd (AttrBool False) s))
                          (set_order env extant) (tree st, store st)
      in st\<lparr>tree := t', store := s', extant_tips := extant, extinct_tips := extinct,
            total_time := 0\<rparr>)"

text \<open>Lines 304 to 325: a death on the node \<open>nd\<close> (already removed from the extant
  set).\<close>

definition bd_death :: "bd_env \<Rightarrow> nat \<Rightarrow> bd_state \<Rightarrow> step_result" where
  "bd_death env nd st =
     (if length (extant_tips st) > 0 then
        Continue (st\<lparr>extinct_tips := set_add nd (extinct_tips st),
                     store := set_extinct_attr (env_cfg env) nd AttrNone (store st)\<rparr>)
      else if \<not> is_none (gsa_ntax (env_cfg env)) \<and> length (targetted_time_slices st) > 0
        then Break ExtinctWithSlices st
      else if \<not> truthy (repeat_until_success (env_cfg env))
        then Raise TreeSimTotalExtinctionException
      else Continue (bd_restart env st))"

text \<open>Lines 284 to 325: the event, when it falls within the time bound.\<close>

definition bd_event :: "bd_env \<Rightarrow> real list \<Rightarrow> (nat \<times> bool) list \<Rightarrow> real \<Rightarrow> bd_state \<Rightarrow> step_result" where
  "bd_event env event_rates event_nodes rate_of_any_event st =
     (case (if is_none (max_time (env_cfg env)) then Inr True
            else py_le (PyFloat (total_time st)) (max_time (env_cfg env))) of
        Inl e \<Rightarrow> Raise e
      | Inr in_time \<Rightarrow>
          if \<not> in_time then Continue st
          else
            (case weighted_choice event_nodes
                    (map (\<lambda>x. x / rate_of_any_event) event_rates) (rng_state st) of
               Inl e \<Rightarrow> Raise e
             | Inr ((nd, birth_event), r') \<Rightarrow>
                 (case set_remove nd (extant_tips st) of
                    Inl e \<Rightarrow> Raise e
                  | Inr extant' \<Rightarrow>
                      let st' = st\<lparr>extant_tips := extant', rng_state := r'\<rparr>
                      in if birth_event then Continue (bd_birth env nd st')
                         else bd_death env nd st')))"

text \<open>Lines 232 to 325: one iteration of \<^verbatim>\<open>while True\<close>.\<close>

definition bd_step :: "bd_env \<Rightarrow> bd_state \<Rightarrow> step_result" where
  "bd_step env st =
     (let cfg = env_cfg env; args = env_args env in
      case bd_should_stop cfg st of
        Inl e \<Rightarrow> Raise e
      | Inr stop \<Rightarrow>
          if stop then Break TargetReached st
          else
            let nds = set_order env (extant_tips st);
                s1 = default_rates args nds (store st);
                event_rates = event_rates_of args s1 nds;
                event_nodes = event_nodes_of nds;
                rate_of_any_event = sum_list event_rates
            in case (if is_rng (rng_kw cfg)
                     then rng_expovariate rate_of_any_event (rng_state st)
                     else Inl AttributeError) of
                 Inl e \<Rightarrow> Raise e
               | Inr (waiting_time, r1) \<Rightarrow>
                   let st1 = st\<lparr>store := s1, rng_state := r1\<rparr>;
                       recording = (\<not> is_none (gsa_ntax cfg)
                          \<and> py_eq_num (PyInt (int (length (extant_tips st))))
                                       (target_num_extant_tips cfg));
                       st2 = (if recording
                              then st1\<lparr>targetted_time_slices := targetted_time_slices st1
                                     @ [(waiting_time, edge_and_start_length s1 nds)]\<rparr>
                              else st1)
                   in if recording \<and> terminate_at_full_tree cfg then Break SliceRecorded st2
                      else
                        let st3 = st2\<lparr>store := add_waiting_time waiting_time nds (store st2),
                                       total_time := total_time st2 + waiting_time\<rparr>
                        in bd_event env event_rates event_nodes rate_of_any_event st3)"

text \<open>
  The loop \<^verbatim>\<open>while True\<close> may run forever; the model runs at most \<open>fuel\<close>
  iterations, and \<open>None\<close> says that the loop has not left by then. A result is the
  place of the \<^verbatim>\<open>break\<close> and the state, or the exception.
\<close>

fun bd_loop :: "nat \<Rightarrow> bd_env \<Rightarrow> bd_state \<Rightarrow> (error + (break_site \<times> bd_state)) option" where
  "bd_loop 0 env st = None"
| "bd_loop (Suc fuel) env st =
     (case bd_step env st of
        Raise e \<Rightarrow> Some (Inl e)
      | Break site st' \<Rightarrow> Some (Inr (site, st'))
      | Continue st' \<Rightarrow> bd_loop fuel env st')"

section \<open>The continuous-time simulator: choosing a time slice\<close>

text \<open>
  Lines 333 to 336: \<^verbatim>\<open>r\<close> is decreased by the duration of every slice in turn, and
  \<^verbatim>\<open>selected_slice\<close> is assigned whenever \<^verbatim>\<open>r\<close> is negative; the loop has no
  \<^verbatim>\<open>break\<close>, so it always runs to the end of the list.
\<close>

fun gsa_select_loop :: "real \<Rightarrow> time_slice option \<Rightarrow> time_slice list \<Rightarrow> time_slice option" where
  "gsa_select_loop r selected_slice [] = selected_slice"
| "gsa_select_loop r selected_slice (i # rest) =
     (if r - fst i < 0 then gsa_select_loop (r - fst i) (Some i) rest
      else gsa_select_loop (r - fst i) selected_slice rest)"

text \<open>Lines 328 to 337, for the uniform draw \<open>u\<close> of \<^verbatim>\<open>rng.random()\<close>; the
  \<^verbatim>\<open>assert\<close> fails when no slice was selected.\<close>

definition gsa_select_slice :: "real \<Rightarrow> time_slice list \<Rightarrow> error + time_slice" where
  "gsa_select_slice u slices =
     (let total_duration_at_target_n_tax = sum_list (map fst slices);
          r = u * total_duration_at_target_n_tax
      in case gsa_select_loop r None slices of
           None \<Rightarrow> Inl AssertionError
         | Some i \<Rightarrow> Inr i)"

text \<open>
  The selection that the specification describes: the first slice whose cumulative
  dwell duration exceeds \<open>u\<close> times the total dwell duration.
\<close>

fun spec_first_exceeding :: "real \<Rightarrow> real \<Rightarrow> time_slice list \<Rightarrow> time_slice option" where
  "spec_first_exceeding threshold cumulative [] = None"
| "spec_first_exceeding threshold cumulative (i # rest) =
     (if cumulative + fst i > threshold then Some i
      else spec_first_exceeding threshold (cumulative + fst i) rest)"

definition spec_select_slice :: "real \<Rightarrow> time_slice list \<Rightarrow> time_slice option" where
  "spec_select_slice u slices =
     spec_first_exceeding (u * sum_list (map fst slices)) 0 slices"

text \<open>Lines 341 to 355: every edge of the chosen slice becomes a childless extant tip
  again, with the length it had at the slice plus the waiting time of the slice.\<close>

fun gsa_restore_edges ::
  "bd_config \<Rightarrow> real \<Rightarrow> (nat \<times> real option) list \<Rightarrow> bd_state \<Rightarrow> error + bd_state" where
  "gsa_restore_edges cfg last_waiting_time [] st = Inr st"
| "gsa_restore_edges cfg last_waiting_time ((e, prev_length) # rest) st =
     (let children = (case find_node e (tree st) of None \<Rightarrow> [] | Some n \<Rightarrow> child_nodes n);
          gone = concat (map preorder children);
          extinct1 = fold set_discard gone (extinct_tips st);
          extant1 = fold set_discard gone (extant_tips st);
          t' = clear_child_nodes e (tree st);
          extinct2 = set_discard e extinct1;
          extant2 = set_add e extant1;
          s1 = set_extinct_attr cfg e (AttrBool False) (store st)
      in case prev_length of
           None \<Rightarrow> Inl TypeError
         | Some l \<Rightarrow>
             gsa_restore_edges cfg last_waiting_time rest
               (st\<lparr>tree := t',
                   store := s1(e := (s1 e)\<lparr>edge_length := Some (l + last_waiting_time)\<rparr>),
                   extant_tips := extant2, extinct_tips := extinct2\<rparr>))"

text \<open>Lines 327 to 355; \<^verbatim>\<open>rng.random()\<close> is the first thing that can fail.\<close>

definition bd_gsa_finalize :: "bd_env \<Rightarrow> bd_state \<Rightarrow> error + bd_state" where
  "bd_gsa_finalize env st =
     (if is_none (gsa_ntax (env_cfg env)) then Inr st
      else if \<not> is_rng (rng_kw (env_cfg env)) then Inl AttributeError
      else
        (case rng_random (rng_state st) of
           (u, r') \<Rightarrow>
             (case gsa_select_slice u (targetted_time_slices st) of
                Inl e \<Rightarrow> Inl e
              | Inr selected_slice \<Rightarrow>
                  gsa_restore_edges (env_cfg env) (fst selected_slice) (snd selected_slice)
                    (st\<lparr>rng_state := r'\<rparr>))))"

section \<open>The continuous-time simulator: pruning and taxa\<close>

text \<open>Lines 360 to 361: from an extinct tip upwards while the parent has exactly one
  child. The walk is bounded by the number of nodes of the tree.\<close>

fun climb_unary :: "nat \<Rightarrow> nat \<Rightarrow> node \<Rightarrow> nat" where
  "climb_unary 0 nd t = nd"
| "climb_unary (Suc k) nd t =
     (case parent_node nd t of
        Some (Node p [c]) \<Rightarrow> climb_unary k p t
      | _ \<Rightarrow> nd)"

text \<open>Lines 358 to 363.\<close>

fun bd_prune_extinct :: "nat list \<Rightarrow> node \<Rightarrow> error + node" where
  "bd_prune_extinct [] t = Inr t"
| "bd_prune_extinct (nd # rest) t =
     (if (case find_node nd t of None \<Rightarrow> False | Some n \<Rightarrow> child_nodes n \<noteq> [])
      then Inl AssertionError
      else
        let top = climb_unary (length (preorder t)) nd t
        in case parent_node top t of
             None \<Rightarrow> bd_prune_extinct rest t
           | Some p \<Rightarrow> bd_prune_extinct rest (remove_subtree top t))"

text \<open>Lines 357 to 364; \<^verbatim>\<open>tree.suppress_unifurcations()\<close> is called in every case.\<close>

definition bd_postprocess :: "bd_env \<Rightarrow> bd_state \<Rightarrow> error + bd_state" where
  "bd_postprocess env st =
     (case (if \<not> truthy (is_retain_extinct_tips (env_cfg env))
            then bd_prune_extinct (set_order env (extinct_tips st)) (tree st)
            else Inr (tree st)) of
        Inl e \<Rightarrow> Inl e
      | Inr t1 \<Rightarrow>
          (case suppress_unifurcations t1 (store st) of
             (t2, s2) \<Rightarrow> Inr (st\<lparr>tree := t2, store := s2\<rparr>)))"

text \<open>The decimal numeral of a natural number (\<^verbatim>\<open>"{}".format(n)\<close>).\<close>

fun string_of_nat :: "nat \<Rightarrow> string" where
  "string_of_nat n =
     (if n < 10 then [''0123456789'' ! n]
      else string_of_nat (n div 10) @ [''0123456789'' ! (n mod 10)])"

text \<open>
  Modelled from the spec: \<^verbatim>\<open>taxon_namespace.require_taxon(label)\<close> belongs to the
  tree library. Section 6: create the taxon if it is absent by label.
\<close>

definition require_taxon :: "string \<Rightarrow> taxon_namespace \<Rightarrow> taxon_namespace" where
  "require_taxon l ns = (if l \<in> set (ns_labels ns) then ns else ns\<lparr>ns_labels := ns_labels ns @ [l]\<rparr>)"

text \<open>Lines 373 to 378 for one node pool, from the index \<open>node_idx\<close> on.\<close>

fun assign_pool ::
  "string \<Rightarrow> nat \<Rightarrow> nat list \<Rightarrow> string list \<times> taxon_namespace \<times> attr_store
     \<Rightarrow> string list \<times> taxon_namespace \<times> attr_store" where
  "assign_pool lab node_idx [] acc = acc"
| "assign_pool lab node_idx (nd # rest) (taxon_pool, ns, s) =
     (if taxon_pool \<noteq> [] then
        assign_pool lab (Suc node_idx) rest
          (butlast taxon_pool, ns, s(nd := (s nd)\<lparr>taxon := Some (last taxon_pool)\<rparr>))
      else
        let l = lab @ string_of_nat (node_idx + 1)
        in assign_pool lab (Suc node_idx) rest
             (taxon_pool, require_taxon l ns, s(nd := (s nd)\<lparr>taxon := Some l\<rparr>)))"

text \<open>Lines 366 to 378.\<close>

definition bd_assign_taxa :: "bd_env \<Rightarrow> bd_state \<Rightarrow> bd_state" where
  "bd_assign_taxa env st =
     (if truthy (is_assign_extant_taxa (env_cfg env))
         \<or> truthy (is_assign_extinct_taxa (env_cfg env)) then
        (case assign_pool ''T'' 0 (set_order env (extant_tips st))
                (ns_labels (namespace st), namespace st, store st) of
           (pool1, ns1, s1) \<Rightarrow>
             (case assign_pool ''X'' 0 (set_order env (extinct_tips st)) (pool1, ns1, s1) of
                (pool2, ns2, s2) \<Rightarrow> st\<lparr>namespace := ns2, store := s2\<rparr>))
      else st)"

section \<open>The continuous-time simulator: the function\<close>

text \<open>
  \<^verbatim>\<open>birth_death_tree(birth_rate, death_rate, birth_rate_sd, death_rate_sd, **kwargs)\<close>.
  The result is \<open>None\<close> when the loop has not left within \<open>fuel\<close> iterations,
  an exception, or the final state: its fields \<open>tree\<close>, \<open>store\<close> and
  \<open>namespace\<close> are the tree that the function returns, the others are the final
  values of the local variables.
\<close>

definition bd_make_env :: "(nat list \<Rightarrow> nat list) \<Rightarrow> bd_args \<Rightarrow> bd_config \<Rightarrow> bd_state \<Rightarrow> bd_env" where
  "bd_make_env ord args cfg st0 =
     \<lparr>env_args = args, env_cfg = cfg,
      initial_extant_tip_set = extant_tips st0,
      initial_extinct_tip_set = extinct_tips st0,
      set_order = ord\<rparr>"

definition bd_finish :: "bd_env \<Rightarrow> bd_state \<Rightarrow> error + bd_state" where
  "bd_finish env st =
     (case bd_gsa_finalize env st of
        Inl e \<Rightarrow> Inl e
      | Inr st2 \<Rightarrow>
          (case bd_postprocess env st2 of
             Inl e \<Rightarrow> Inl e
           | Inr st3 \<Rightarrow> Inr (bd_assign_taxa env st3)))"

definition birth_death_tree ::
  "nat \<Rightarrow> (nat list \<Rightarrow> nat list) \<Rightarrow> rng \<Rightarrow> bd_args \<Rightarrow> kwargs \<Rightarrow> (error + bd_state) option" where
  "birth_death_tree fuel ord GLOBAL_RNG args kwargs =
     (case bd_validate GLOBAL_RNG kwargs of
        Inl e \<Rightarrow> Some (Inl e)
      | Inr cfg \<Rightarrow>
          (case bd_init args cfg of
             Inl e \<Rightarrow> Some (Inl e)
           | Inr st0 \<Rightarrow>
               (case bd_loop fuel (bd_make_env ord args cfg st0) st0 of
                  None \<Rightarrow> None
                | Some (Inl e) \<Rightarrow> Some (Inl e)
                | Some (Inr (site, st1)) \<Rightarrow>
                    Some (bd_finish (bd_make_env ord args cfg st0) st1))))"

section \<open>The discrete-time simulator\<close>

text \<open>
  \<^verbatim>\<open>discrete_birth_death_tree(birth_rate, death_rate, birth_rate_sd, death_rate_sd,
  **kwargs)\<close>. Two methods of the tree library that it calls are taken as parameters:
  \<^verbatim>\<open>tree.prune_subtree(nd)\<close> and \<^verbatim>\<open>tree.randomly_assign_taxa(...)\<close>. The second
  receives the value of \<^verbatim>\<open>rng\<close> as it is then (a generator with the draws it has left,
  or the value that the caller passed when that is no generator) and gives back the
  draws that are left after it.
\<close>

record tree_lib =
  prune_subtree :: "nat \<Rightarrow> node \<Rightarrow> attr_store \<Rightarrow> error + (node \<times> attr_store)"
  randomly_assign_taxa ::
    "pyval \<Rightarrow> node \<Rightarrow> attr_store \<Rightarrow> taxon_namespace \<Rightarrow> error + (attr_store \<times> taxon_namespace \<times> rng)"

text \<open>The local variables that lines 435 to 450 compute from \<^verbatim>\<open>**kwargs\<close>.\<close>

record dd_config =
  dd_target_num_taxa :: pyval
  dd_target_num_gens :: pyval
  dd_taxon_namespace :: pyval
  dd_repeat_until_success :: pyval
  dd_rng :: pyval

definition dd_validate :: "rng \<Rightarrow> kwargs \<Rightarrow> error + dd_config" where
  "dd_validate GLOBAL_RNG kwargs =
     (if \<not> kw_in ''ntax'' kwargs \<and> \<not> kw_in ''taxon_namespace'' kwargs
         \<and> \<not> kw_in ''max_time'' kwargs then Inl ValueError
      else
        (case (if kw_in ''taxon_namespace'' kwargs then
                 (case kw_get ''taxon_namespace'' PyNone kwargs of
                    PyTaxonNamespace ns \<Rightarrow>
                      Inr (PyTaxonNamespace ns,
                           kw_get ''ntax'' (PyInt (int (length (ns_labels ns)))) kwargs)
                  | _ \<Rightarrow> Inl TypeError)
               else if kw_in ''ntax'' kwargs then Inr (PyNone, kw_get ''ntax'' PyNone kwargs)
               else Inr (PyNone, PyNone)) of
           Inl e \<Rightarrow> Inl e
         | Inr (v_namespace, v_target_num_taxa) \<Rightarrow>
             Inr \<lparr>dd_target_num_taxa = v_target_num_taxa,
                  dd_target_num_gens = kw_get ''max_time'' PyNone kwargs,
                  dd_taxon_namespace =
                    (if is_none v_namespace then PyTaxonNamespace \<lparr>ns_id = 0, ns_labels = []\<rparr>
                     else v_namespace),
                  dd_repeat_until_success = kw_get ''repeat_until_success'' (PyBool False) kwargs,
                  dd_rng = kw_get ''rng'' (PyRng GLOBAL_RNG) kwargs\<rparr>))"

record dd_state =
  d_tree :: node
  d_store :: attr_store
  d_next_node :: nat
  d_namespace :: taxon_namespace
  d_num_gens :: int
  d_rng :: rng

text \<open>Lines 452 to 464: the tree to grow. Nothing is drawn here.\<close>

definition dd_init :: "bd_args \<Rightarrow> dd_config \<Rightarrow> kwargs \<Rightarrow> error + dd_state" where
  "dd_init args cfg kwargs =
     (case dd_taxon_namespace cfg of
        PyTaxonNamespace ns \<Rightarrow>
          if kw_in ''tree'' kwargs then
            (case kw_get ''tree'' PyNone kwargs of
               PyTree tr \<Rightarrow>
                 if kw_in ''taxon_namespace'' kwargs \<and> ns_id ns \<noteq> ns_id (tree_namespace tr)
                 then Inl ValueError
                 else Inr \<lparr>d_tree = seed_node tr, d_store = node_store tr,
                           d_next_node = fresh_node (seed_node tr),
                           d_namespace = tree_namespace tr, d_num_gens = 0,
                           d_rng = draws_of (dd_rng cfg)\<rparr>
             | _ \<Rightarrow> Inl AttributeError)
          else
            Inr \<lparr>d_tree = Node 0 [],
                 d_store = (\<lambda>i. new_node_attrs)
                   (0 := new_node_attrs\<lparr>edge_length := Some 0,
                          nd_birth_rate := Some (arg_birth_rate args),
                          nd_death_rate := Some (arg_death_rate args)\<rparr>),
                 d_next_node = 1, d_namespace = ns, d_num_gens = 0,
                 d_rng = draws_of (dd_rng cfg)\<rparr>
      | _ \<Rightarrow> Inl AttributeError)"

text \<open>Lines 468 to 494: one leaf of the generation. \<^verbatim>\<open>rng.uniform(0, 1)\<close> is the first
  use of \<^verbatim>\<open>rng\<close>.\<close>

definition dd_leaf :: "tree_lib \<Rightarrow> bd_args \<Rightarrow> dd_config \<Rightarrow> nat \<Rightarrow> dd_state \<Rightarrow> error + dd_state" where
  "dd_leaf lib args cfg nd st =
     (let s0 = d_store st;
          b = node_birth_rate args (s0 nd);
          d = node_death_rate args (s0 nd);
          s1 = s0(nd := (s0 nd)\<lparr>nd_birth_rate := Some b, nd_death_rate := Some d,
                  edge_length := (case edge_length (s0 nd) of
                                    None \<Rightarrow> Some 1 | Some l \<Rightarrow> Some (l + 1))\<rparr>);
          (u, r0) = rng_uniform01 (d_rng st)
      in if \<not> is_rng (dd_rng cfg) then Inl AttributeError
         else if u < b then
           let c1 = d_next_node st;
               c2 = Suc (d_next_node st);
               (g1, r1) = rng_gauss 0 (arg_birth_rate_sd args) r0;
               (g2, r2) = rng_gauss 0 (arg_death_rate_sd args) r1;
               (g3, r3) = rng_gauss 0 (arg_birth_rate_sd args) r2;
               (g4, r4) = rng_gauss 0 (arg_death_rate_sd args) r3;
               s2 = s1(c1 := new_node_attrs\<lparr>edge_length := Some 0,
                         nd_birth_rate := Some (b + g1), nd_death_rate := Some (d + g2)\<rparr>);
               s3 = s2(c2 := new_node_attrs\<lparr>edge_length := Some 0,
                         nd_birth_rate := Some (b + g3), nd_death_rate := Some (d + g4)\<rparr>)
           in Inr (st\<lparr>d_tree := new_child nd c2 (new_child nd c1 (d_tree st)),
                      d_store := s3, d_next_node := Suc (Suc (d_next_node st)), d_rng := r4\<rparr>)
         else if u > b \<and> u < b + d then
           (if nd \<noteq> node_id (d_tree st) then
              (case prune_subtree lib nd (d_tree st) s1 of
                 Inl e \<Rightarrow> Inl e
               | Inr (t', s') \<Rightarrow> Inr (st\<lparr>d_tree := t', d_store := s', d_rng := r0\<rparr>))
            else if \<not> truthy (dd_repeat_until_success cfg) then
              Inl TreeSimTotalExtinctionException
            else Inr (st\<lparr>d_store := s1, d_rng := r0, d_num_gens := 0\<rparr>))
         else Inr (st\<lparr>d_store := s1, d_rng := r0\<rparr>))"

text \<open>Lines 467 to 494: the loop over the leaves of the generation.\<close>

fun dd_leaves :: "tree_lib \<Rightarrow> bd_args \<Rightarrow> dd_config \<Rightarrow> nat list \<Rightarrow> dd_state \<Rightarrow> error + dd_state" where
  "dd_leaves lib args cfg [] st = Inr st"
| "dd_leaves lib args cfg (nd # rest) st =
     (case dd_leaf lib args cfg nd st of
        Inl e \<Rightarrow> Inl e
      | Inr st' \<Rightarrow> dd_leaves lib args cfg rest st')"

text \<open>\<^verbatim>\<open>target is None or n < target\<close>\<close>

definition below :: "pyval \<Rightarrow> pyval \<Rightarrow> error + bool" where
  "below n target = (if is_none target then Inr True else py_lt n target)"

text \<open>The condition of the \<^verbatim>\<open>while\<close> loop of lines 465 and 466.\<close>

definition dd_continue :: "dd_config \<Rightarrow> dd_state \<Rightarrow> error + bool" where
  "dd_continue cfg st =
     (case below (PyInt (int (length (leaf_nodes (d_tree st))))) (dd_target_num_taxa cfg) of
        Inl e \<Rightarrow> Inl e
      | Inr more_taxa \<Rightarrow>
          if \<not> more_taxa then Inr False
          else below (PyInt (d_num_gens st)) (dd_target_num_gens cfg))"

text \<open>Lines 465 to 497, for at most \<open>fuel\<close> generations.\<close>

fun dd_loop :: "nat \<Rightarrow> tree_lib \<Rightarrow> bd_args \<Rightarrow> dd_config \<Rightarrow> dd_state \<Rightarrow> (error + dd_state) option" where
  "dd_loop 0 lib args cfg st = None"
| "dd_loop (Suc fuel) lib args cfg st =
     (case dd_continue cfg st of
        Inl e \<Rightarrow> Some (Inl e)
      | Inr go_on \<Rightarrow>
          if \<not> go_on then Some (Inr st)
          else
            (case dd_leaves lib args cfg (leaf_nodes (d_tree st)) st of
               Inl e \<Rightarrow> Some (Inl e)
             | Inr st' \<Rightarrow> dd_loop fuel lib args cfg (st'\<lparr>d_num_gens := d_num_gens st' + 1\<rparr>)))"

text \<open>Lines 503 to 508: the number of generations to add, for at most \<open>fuel\<close>
  draws.\<close>

fun dd_coda :: "nat \<Rightarrow> bd_args \<Rightarrow> dd_config \<Rightarrow> int \<Rightarrow> int \<Rightarrow> rng \<Rightarrow> (error + (int \<times> rng)) option" where
  "dd_coda 0 args cfg num_gens gens_to_add r = None"
| "dd_coda (Suc fuel) args cfg num_gens gens_to_add r =
     (case below (PyInt num_gens) (dd_target_num_gens cfg) of
        Inl e \<Rightarrow> Some (Inl e)
      | Inr go_on \<Rightarrow>
          if \<not> go_on then Some (Inr (gens_to_add, r))
          else if \<not> is_rng (dd_rng cfg) then Some (Inl AttributeError)
          else
            (case rng_uniform01 r of
               (u, r') \<Rightarrow>
                 if u < arg_birth_rate args + arg_death_rate args
                 then Some (Inr (gens_to_add, r'))
                 else dd_coda fuel args cfg num_gens (gens_to_add + 1) r'))"

text \<open>Lines 509 and 510: \<^verbatim>\<open>nd.edge.length += gens_to_add\<close> raises \<^verbatim>\<open>TypeError\<close> on a
  length that is \<^verbatim>\<open>None\<close>.\<close>

fun dd_add_gens :: "int \<Rightarrow> nat list \<Rightarrow> attr_store \<Rightarrow> error + attr_store" where
  "dd_add_gens g [] s = Inr s"
| "dd_add_gens g (nd # rest) s =
     (case edge_length (s nd) of
        None \<Rightarrow> Inl TypeError
      | Some l \<Rightarrow> dd_add_gens g rest (s(nd := (s nd)\<lparr>edge_length := Some (l + real_of_int g)\<rparr>)))"

definition discrete_birth_death_tree ::
  "nat \<Rightarrow> tree_lib \<Rightarrow> rng \<Rightarrow> bd_args \<Rightarrow> kwargs \<Rightarrow> (error + dd_state) option" where
  "discrete_birth_death_tree fuel lib GLOBAL_RNG args kwargs =
     (case dd_validate GLOBAL_RNG kwargs of
        Inl e \<Rightarrow> Some (Inl e)
      | Inr cfg \<Rightarrow>
          (case dd_init args cfg kwargs of
             Inl e \<Rightarrow> Some (Inl e)
           | Inr st0 \<Rightarrow>
               (case dd_loop fuel lib args cfg st0 of
                  None \<Rightarrow> None
                | Some (Inl e) \<Rightarrow> Some (Inl e)
                | Some (Inr st1) \<Rightarrow>
                    (case dd_coda fuel args cfg (d_num_gens st1) 0 (d_rng st1) of
                       None \<Rightarrow> None
                     | Some (Inl e) \<Rightarrow> Some (Inl e)
                     | Some (Inr (gens_to_add, r)) \<Rightarrow>
                         (case dd_add_gens gens_to_add (leaf_nodes (d_tree st1)) (d_store st1) of
                            Inl e \<Rightarrow> Some (Inl e)
                          | Inr s \<Rightarrow>
                              if truthy (kw_get ''assign_taxa'' (PyBool True) kwargs) then
                                (case randomly_assign_taxa lib
                                        (if is_rng (dd_rng cfg) then PyRng r else dd_rng cfg)
                                        (d_tree st1) s (d_namespace st1) of
                                   Inl e \<Rightarrow> Some (Inl e)
                                 | Inr (s', ns', r') \<Rightarrow>
                                     Some (Inr (st1\<lparr>d_store := s', d_namespace := ns', d_rng := r'\<rparr>)))
                              else Some (Inr (st1\<lparr>d_store := s, d_rng := r\<rparr>)))))))"

section \<open>Observations and worked inputs\<close>

text \<open>The state that a step leaves behind, if it does not raise.\<close>

fun step_state :: "step_result \<Rightarrow> bd_state option" where
  "step_state (Continue st) = Some st"
| "step_state (Break site st) = Some st"
| "step_state (Raise e) = None"

text \<open>Arguments of worked examples: a pure-birth process of rate \<open>1\<close>, and a process
  with birth rate \<open>1\<close> and death rate \<open>1\<close>; the rates do not mutate.\<close>

definition pure_birth_args :: bd_args where
  "pure_birth_args = \<lparr>arg_birth_rate = 1, arg_death_rate = 0,
                       arg_birth_rate_sd = 0, arg_death_rate_sd = 0\<rparr>"

definition birth_death_args :: bd_args where
  "birth_death_args = \<lparr>arg_birth_rate = 1, arg_death_rate = 1,
                        arg_birth_rate_sd = 0, arg_death_rate_sd = 0\<rparr>"

text \<open>The variables that \<^verbatim>\<open>num_extant_tips=n\<close> (and \<^verbatim>\<open>gsa_ntax=g\<close>) alone give, with
  the generator \<open>r\<close>.\<close>

definition extant_target_cfg :: "int \<Rightarrow> pyval \<Rightarrow> rng \<Rightarrow> bd_config" where
  "extant_target_cfg n g r =
     \<lparr>target_num_extant_tips = PyInt n,
      target_num_extinct_tips = PyNone,
      target_num_total_tips = PyNone,
      max_time = PyNone,
      gsa_ntax = g,
      is_add_extinct_attr = PyBool True,
      extinct_attr_name = PyStr ''is_extinct'',
      is_retain_extinct_tips = PyBool False,
      is_assign_extant_taxa = PyBool True,
      is_assign_extinct_taxa = PyBool True,
      repeat_until_success = PyBool True,
      tree_kw = PyNone,
      taxon_namespace_kw = PyNone,
      rng_kw = PyRng r,
      terminate_at_full_tree = is_none g\<rparr>"

text \<open>The state in which a run on a new tree starts.\<close>

definition fresh_state :: "bd_args \<Rightarrow> bd_config \<Rightarrow> rng \<Rightarrow> bd_state" where
  "fresh_state args cfg r =
     \<lparr>tree = Node 0 [],
      store = set_extinct_attr cfg 0 (AttrBool False)
                ((\<lambda>i. new_node_attrs)
                   (0 := new_node_attrs\<lparr>edge_length := Some 0,
                          nd_birth_rate := Some (arg_birth_rate args),
                          nd_death_rate := Some (arg_death_rate args)\<rparr>)),
      next_node = 1, namespace = \<lparr>ns_id = 0, ns_labels = []\<rparr>,
      extant_tips = [0], extinct_tips = [],
      total_time = 0, targetted_time_slices = [],
      rng_state = r\<rparr>"





text \<open>The edge length of the node object \<open>i\<close> in a state.\<close>

definition edge_length_of :: "nat \<Rightarrow> bd_state \<Rightarrow> real option" where
  "edge_length_of i st = edge_length (store st i)"

text \<open>The height of a tree, and the height of the tree that a call returns.\<close>

fun height :: "node \<Rightarrow> nat" where
  "height (Node i cs) = (if cs = [] then 0 else Suc (fold max (map height cs) 0))"

fun returned_height :: "(error + bd_state) option \<Rightarrow> nat option" where
  "returned_height (Some (Inr st)) = Some (height (tree st))"
| "returned_height _ = None"

section \<open>Root-to-tip paths and the pure-birth invariant\<close>

text \<open>The edge length of the root of the returned tree.\<close>

fun returned_root_length :: "(error + bd_state) option \<Rightarrow> real option" where
  "returned_root_length (Some (Inr st)) = edge_length (store st (node_id (tree st)))"
| "returned_root_length _ = None"

text \<open>The value of \<^verbatim>\<open>total_time\<close> at the end of a call.\<close>

fun returned_total_time :: "(error + bd_state) option \<Rightarrow> real option" where
  "returned_total_time (Some (Inr st)) = Some (total_time st)"
| "returned_total_time _ = None"

text \<open>
  Two more generators for worked examples. Every exponential draw is \<open>1\<close> and every
  normal draw \<open>0\<close>; the uniform draws of the first are all \<open>1/4\<close>, those of the
  second are \<open>3/4\<close> and then \<open>1/4\<close> for ever: the second is the first with one more
  uniform draw in front.
\<close>

definition birth_rng :: rng where
  "birth_rng = \<lparr>expo_draws = (\<lambda>k. 1), unif_draws = (\<lambda>k. 1 / 4), norm_draws = (\<lambda>k. 0)\<rparr>"

definition death_then_birth_rng :: rng where
  "death_then_birth_rng =
     \<lparr>expo_draws = (\<lambda>k. 1), unif_draws = (\<lambda>k. if k = 0 then 3 / 4 else 1 / 4),
      norm_draws = (\<lambda>k. 0)\<rparr>"

text \<open>The length of the edge of a node (an absent length counts as \<open>0\<close>), and the sums
  of the edge lengths along the paths from a node, its own edge included, down to every
  leaf below it.\<close>

definition the_length :: "node_attrs \<Rightarrow> real" where
  "the_length a = (case edge_length a of None \<Rightarrow> 0 | Some l \<Rightarrow> l)"

fun path_lengths :: "attr_store \<Rightarrow> node \<Rightarrow> real list" where
  "path_lengths s (Node i cs) =
     (if cs = [] then [the_length (s i)]
      else map (\<lambda>p. the_length (s i) + p) (concat (map (path_lengths s) cs)))"

text \<open>The sums along the paths from the root to the leaves of the returned tree.\<close>

fun returned_path_lengths :: "(error + bd_state) option \<Rightarrow> real list option" where
  "returned_path_lengths (Some (Inr st)) = Some (path_lengths (store st) (tree st))"
| "returned_path_lengths _ = None"



section \<open>Properties of the pure-birth fitter\<close>

lemma py_max_Max: "vs \<noteq> [] \<Longrightarrow> py_max vs = Inr (Max (set vs))"
proof (cases vs)
  case (Cons a list)
  then show ?thesis using Max.set_eq_fold[of a list] by (simp add: py_max_def)
qed simp

lemma nvec_nth: "idx < length x \<Longrightarrow> py_range 2 (int (length x) + 2) ! idx = int idx + 2"
  by (simp add: py_range_def)

lemma set_enumerate0: "set (List.enumerate 0 x) = {(i, x ! i) | i. i < length x}"
  by (auto simp: in_set_enumerate_eq)

lemma max_nvec_ge_set:
  "set (map (\<lambda>(idx, i). py_range 2 (int (length x) + 2) ! idx)
          (filter (\<lambda>(idx, i). i \<ge> st) (List.enumerate 0 x)))
   = {int idx + 2 | idx. idx < length x \<and> x ! idx \<ge> st}" (is "?L = ?R")
proof
  show "?L \<subseteq> ?R"
    by (auto simp: set_enumerate0 nvec_nth)
  show "?R \<subseteq> ?L"
  proof
    fix v assume "v \<in> ?R"
    then obtain idx where i: "v = int idx + 2" "idx < length x" "x ! idx \<ge> st" by blast
    then have "(idx, x ! idx) \<in> set (filter (\<lambda>(idx, i). i \<ge> st) (List.enumerate 0 x))"
      by (simp add: set_enumerate0)
    then have "(\<lambda>(idx, i). py_range 2 (int (length x) + 2) ! idx) (idx, x ! idx) \<in> ?L"
      unfolding set_map by (rule imageI)
    then show "v \<in> ?L" using i by (simp add: nvec_nth)
  qed
qed

lemma max_nvec_ge_Max:
  assumes "\<exists>i\<in>set x. i \<ge> st"
  shows "max_nvec_ge x st = Inr (Max {int idx + 2 | idx. idx < length x \<and> x ! idx \<ge> st})"
proof -
  let ?vs = "map (\<lambda>(idx, i). py_range 2 (int (length x) + 2) ! idx)
          (filter (\<lambda>(idx, i). i \<ge> st) (List.enumerate 0 x))"
  from assms obtain k where "k < length x" "x ! k \<ge> st" by (auto simp: in_set_conv_nth)
  then have "int k + 2 \<in> set ?vs" unfolding max_nvec_ge_set by blast
  then have ne: "?vs \<noteq> []" by (metis empty_iff empty_set)
  have "max_nvec_ge x st = py_max ?vs" by (simp add: max_nvec_ge_def Let_def)
  also have "\<dots> = Inr (Max (set ?vs))" using py_max_Max[OF ne] .
  finally show ?thesis unfolding max_nvec_ge_set .
qed

lemma max_nvec_ge_first:
  assumes "\<forall>t\<in>set ts. t < t1"
  shows "max_nvec_ge (t1 # ts) t1 = Inr 2"
proof -
  have "{int idx + 2 | idx. idx < length (t1 # ts) \<and> (t1 # ts) ! idx \<ge> t1} = {2}" (is "?S = _")
  proof
    show "?S \<subseteq> {2}"
    proof
      fix v assume "v \<in> ?S"
      then obtain idx where i: "v = int idx + 2" "idx < length (t1 # ts)" "(t1 # ts) ! idx \<ge> t1" by blast
      have "idx = 0"
      proof (cases idx)
        case (Suc k)
        then have "ts ! k \<in> set ts" using i by simp
        with assms have "ts ! k < t1" by blast
        with i Suc show ?thesis by simp
      qed simp
      then show "v \<in> {2}" using i by simp
    qed
    show "{2} \<subseteq> ?S" by force
  qed
  then show ?thesis using max_nvec_ge_Max[of "t1 # ts" t1] by simp
qed

lemma max_nvec_ge_all:
  assumes "\<forall>t\<in>set x. st \<le> t" "x \<noteq> []"
  shows "max_nvec_ge x st = Inr (int (length x) + 1)"
proof -
  have "{int idx + 2 | idx. idx < length x \<and> x ! idx \<ge> st} = (\<lambda>idx. int idx + 2) ` {..<length x}"
    using assms by auto
  moreover have "Max ((\<lambda>idx. int idx + 2) ` {..<length x}) = int (length x) + 1"
  proof (rule Max_eqI)
    show "finite ((\<lambda>idx. int idx + 2) ` {..<length x})" by simp
    show "\<And>y. y \<in> (\<lambda>idx. int idx + 2) ` {..<length x} \<Longrightarrow> y \<le> int (length x) + 1" by auto
    have "length x - 1 < length x" using assms by (cases x) auto
    then show "int (length x) + 1 \<in> (\<lambda>idx. int idx + 2) ` {..<length x}"
      by (intro image_eqI[where x="length x - 1"]) auto
  qed
  moreover have "\<exists>i\<in>set x. i \<ge> st" using assms by (cases x) auto
  ultimately show ?thesis using max_nvec_ge_Max[of x st] by simp
qed

lemma py_slice_tail: "py_slice (a # ts) 1 (int (length ts) + 1) = ts"
  by (simp add: py_slice_def Let_def)

lemma sum_math_log_pos:
  "\<forall>i\<in>set is. 0 < i \<Longrightarrow> sum_math_log is = Inr (\<Sum>i\<leftarrow>is. ln (real_of_int i))"
  by (induction "is") (simp_all add: math_log_def)

lemma fit_smax_strict:
  assumes x: "sorted_reverse ages = t1 # ts"
    and lt: "\<forall>t\<in>set ts. t < t1" and nn: "\<forall>t\<in>set ts. 0 \<le> t" and ne: "ts \<noteq> []"
  shows "fit_smax ages = Inr (2, int (length ts) + 2, real (length ts) / (2 * t1 + sum_list ts))"
proof -
  obtain t where t: "t \<in> set ts" using ne by (cases ts) auto
  have t1pos: "0 < t1" using lt nn t by force
  have all0: "\<forall>t\<in>set (t1 # ts). 0 \<le> t" using nn t1pos by auto
  have lo: "max_nvec_ge (t1 # ts) t1 = Inr 2" using max_nvec_ge_first[OF lt] .
  have up: "max_nvec_ge (t1 # ts) 0 = Inr (int (length ts) + 2)"
    using max_nvec_ge_all[OF all0] by simp
  have nv: "filter (\<lambda>i. i < t1 \<and> 0 \<le> i) (t1 # ts) = ts"
    using lt nn by (simp add: filter_id_conv)
  have sl: "py_slice (t1 # ts) 1 (int (length ts) + 2 - 2 + 1) = ts"
    using py_slice_tail[of t1 ts] by simp
  have "0 \<le> sum_list ts" using nn by (simp add: sum_list_nonneg)
  then have den: "2 * t1 + sum_list ts \<noteq> 0" using t1pos by linarith
  show ?thesis
    unfolding fit_smax_def Let_def x
    using lo up nv sl den by simp
qed

lemma sum_list_ln_upto:
  "(\<Sum>i\<leftarrow>[2..int m]. ln (real_of_int i)) = (\<Sum>i = 2..m. ln (real i))"
proof -
  have "(\<Sum>i\<leftarrow>[2..int m]. ln (real_of_int i)) = (\<Sum>i\<in>{2..int m}. ln (real_of_int i))"
    by (simp add: sum_list_distinct_conv_sum_set)
  also have "{2..int m} = int ` {2..m}"
    by (metis image_int_atLeastAtMost of_nat_numeral)
  also have "(\<Sum>i\<in>int ` {2..m}. ln (real_of_int i)) = (\<Sum>i = 2..m. ln (real i))"
    by (simp add: sum.reindex)
  finally show ?thesis .
qed

lemma sum_math_log_error: "sum_math_log is = Inl e \<Longrightarrow> e = ValueError"
  by (induction "is" arbitrary: e) (auto simp: math_log_def split: if_splits sum.splits)

lemma fit_lh_try_undefined:
  assumes "smax \<le> 0"
  shows "fit_lh_try lo up smax = Inl ValueError"
proof (cases "sum_math_log (py_range lo up)")
  case (Inl e)
  then show ?thesis using sum_math_log_error[OF Inl] by (simp add: fit_lh_try_def)
next
  case (Inr s)
  then show ?thesis using assms by (simp add: fit_lh_try_def math_log_def)
qed

text \<open>
  Claim C1, as the code has it. Let \<open>t1 > t2 \<ge> \<dots> \<ge> 0\<close> be the internal-node ages
  sorted descending, for a tree of \<open>n \<ge> 3\<close> tips (so \<open>n - 1\<close> ages), the largest age
  being strictly larger than the others. Then \<^verbatim>\<open>fit_pure_birth_model\<close> returns the
  birth rate \<open>(n - 2) / (2 * t1 + (t2 + \<dots>))\<close> and the log-likelihood
  \<open>ln 2 + \<dots> + ln (n - 1) + (n - 2) * ln rate - (n - 2)\<close>. The factor is \<open>n - 2\<close>
  (the value of \<^verbatim>\<open>up - lo\<close>) and the sum of logarithms stops at \<open>n - 1\<close>
  (\<^verbatim>\<open>range(lo, up)\<close> excludes \<^verbatim>\<open>up\<close>).
\<close>

theorem fit_pure_birth_model_estimate:
  fixes n :: nat
  assumes src: "fit_input_ages kwargs = Inr ages"
    and x: "sorted_reverse ages = t1 # ts"
    and n: "length ages + 1 = n" "3 \<le> n"
    and lt: "\<forall>t\<in>set ts. t < t1" and nn: "\<forall>t\<in>set ts. 0 \<le> t"
  shows "fit_pure_birth_model kwargs =
           Inr \<lparr>birth_rate = real (n - 2) / (2 * t1 + sum_list ts),
                log_likelihood = Finite ((\<Sum>i = 2..n - 1. ln (real i))
                   + real (n - 2) * ln (real (n - 2) / (2 * t1 + sum_list ts))
                   - real (n - 2))\<rparr>"
proof -
  have "length (sorted_reverse ages) = length ages" by (simp add: sorted_reverse_def)
  then have len: "length ts + 2 = n" using x n by simp
  then have ne: "ts \<noteq> []" using n by auto
  let ?r = "real (length ts) / (2 * t1 + sum_list ts)"
  have sm: "fit_smax ages = Inr (2, int (length ts) + 2, ?r)"
    using fit_smax_strict[OF x lt nn ne] .
  obtain t where t: "t \<in> set ts" using ne by (cases ts) auto
  have "0 < t1" using lt nn t by force
  moreover have "0 \<le> sum_list ts" using nn by (simp add: sum_list_nonneg)
  ultimately have "0 < 2 * t1 + sum_list ts" by linarith
  moreover have "0 < real (length ts)" using ne by simp
  ultimately have rpos: "0 < ?r" by simp
  have "sum_math_log (py_range 2 (int (length ts) + 2)) = Inr (\<Sum>i\<leftarrow>[2..int (length ts + 1)]. ln (real_of_int i))"
    by (subst sum_math_log_pos) (auto simp: py_range_def)
  then have s1: "sum_math_log (py_range 2 (int (length ts) + 2)) = Inr (\<Sum>i = 2..length ts + 1. ln (real i))"
    by (simp only: sum_list_ln_upto)
  have lh: "fit_lh_try 2 (int (length ts) + 2) ?r =
      Inr ((\<Sum>i = 2..length ts + 1. ln (real i)) + real (length ts) * ln ?r - real (length ts))"
    using rpos by (simp add: fit_lh_try_def s1 math_log_def Let_def)
  have "n - 2 = length ts" "n - 1 = length ts + 1" using len by auto
  then show ?thesis
    using src sm lh by (simp add: fit_pure_birth_model_def)
qed

theorem fit_pure_birth_model_estimate_witness:
  "fit_pure_birth_model \<lparr>tree_ages = None, internal_node_ages = Some [1, 2], ignore_failure = False\<rparr> =
     Inr \<lparr>birth_rate = real (3 - 2) / (2 * 2 + sum_list [1]),
          log_likelihood = Finite ((\<Sum>i = 2..(3::nat) - 1. ln (real i))
             + real (3 - 2) * ln (real (3 - 2) / (2 * 2 + sum_list [1])) - real (3 - 2))\<rparr>"
  using fit_pure_birth_model_estimate [of "\<lparr>tree_ages = None, internal_node_ages = Some [1, 2], ignore_failure = False\<rparr>"
      "[1, 2]" 2 "[1]" 3]
  by (simp add: sorted_reverse_def fit_input_ages_def)

text \<open>
  For the ages \<open>[2, 1]\<close> (three tips) the formula with \<open>n - 1\<close> in the numerator
  gives \<open>2 / 5\<close>; the code returns \<open>1 / 5\<close>.
\<close>

theorem fit_pure_birth_model_spec_formula_counterexample:
  "map_sum id birth_rate
     (fit_pure_birth_model \<lparr>tree_ages = None, internal_node_ages = Some [2, 1], ignore_failure = False\<rparr>)
     = Inr (1 / 5)
   \<and> (1 / 5 :: real) \<noteq> (3 - 1) / (2 * 2 + 1)"
  by (simp add: fit_pure_birth_model_def fit_input_ages_def fit_smax_def sorted_reverse_def max_nvec_ge_def
      py_range_def py_max_def py_slice_def enumerate_eq_zip upto.simps fit_lh_try_def math_log_def)

text \<open>
  Claim C7. When the estimate \<^verbatim>\<open>smax\<close> is not positive, so that \<^verbatim>\<open>math.log(smax)\<close>
  is undefined, the call returns the estimate with log-likelihood \<open>-inf\<close> by default
  (flag \<^verbatim>\<open>ignore_likelihood_calculation_failure\<close> absent or false), and raises
  \<^verbatim>\<open>ValueError\<close> only when that flag is set.
\<close>

theorem fit_pure_birth_model_degenerate:
  assumes src: "fit_input_ages kwargs = Inr ages"
    and sm: "fit_smax ages = Inr (lo, up, smax)"
    and undefined_log: "smax \<le> 0"
  shows "fit_pure_birth_model kwargs =
           (if ignore_failure kwargs then Inl ValueError
            else Inr \<lparr>birth_rate = smax, log_likelihood = NegInf\<rparr>)"
  using src sm fit_lh_try_undefined[OF undefined_log, of lo up]
  by (simp add: fit_pure_birth_model_def)

lemma fit_smax_single: "fit_smax [1] = Inr (2, 2, 0)"
  by (simp add: fit_smax_def sorted_reverse_def max_nvec_ge_def py_range_def py_max_def py_slice_def enumerate_eq_zip upto.simps)

theorem fit_pure_birth_model_degenerate_witness:
  "fit_pure_birth_model \<lparr>tree_ages = None, internal_node_ages = Some [1], ignore_failure = False\<rparr>
      = Inr \<lparr>birth_rate = 0, log_likelihood = NegInf\<rparr>
   \<and> fit_pure_birth_model \<lparr>tree_ages = None, internal_node_ages = Some [1], ignore_failure = True\<rparr>
      = Inl ValueError"
  using fit_pure_birth_model_degenerate [of "\<lparr>tree_ages = None, internal_node_ages = Some [1], ignore_failure = False\<rparr>" "[1]" 2 2 0]
    fit_pure_birth_model_degenerate [of "\<lparr>tree_ages = None, internal_node_ages = Some [1], ignore_failure = True\<rparr>" "[1]" 2 2 0]
    fit_smax_single
  by (simp add: fit_input_ages_def)

section \<open>Argument checks of the continuous-time simulator\<close>

lemma kw_get_delete: "k \<noteq> k' \<Longrightarrow> kw_get k d (AList.delete k' kw) = kw_get k d kw"
  by (simp add: kw_get_def AList.delete_conv')

lemma bd_pop_args_eq:
  "bd_pop_args G kw =
     (\<lparr>target_num_extant_tips = kw_get ''num_extant_tips'' PyNone kw,
       target_num_extinct_tips = kw_get ''num_extinct_tips'' PyNone kw,
       target_num_total_tips = kw_get ''num_total_tips'' PyNone kw,
       max_time = kw_get ''max_time'' PyNone kw,
       gsa_ntax = kw_get ''gsa_ntax'' PyNone kw,
       is_add_extinct_attr = kw_get ''is_add_extinct_attr'' (PyBool True) kw,
       extinct_attr_name = kw_get ''extinct_attr_name'' (PyStr ''is_extinct'') kw,
       is_retain_extinct_tips = kw_get ''is_retain_extinct_tips'' (PyBool False) kw,
       is_assign_extant_taxa = kw_get ''is_assign_extant_taxa'' (PyBool True) kw,
       is_assign_extinct_taxa = kw_get ''is_assign_extinct_taxa'' (PyBool True) kw,
       repeat_until_success = kw_get ''repeat_until_success'' (PyBool True) kw,
       tree_kw = kw_get ''tree'' PyNone kw,
       taxon_namespace_kw = kw_get ''taxon_namespace'' PyNone kw,
       rng_kw = kw_get ''rng'' (PyRng G) kw,
       terminate_at_full_tree = False\<rparr>,
      kw_get ''ignore_unrecognized_keyword_arguments'' (PyBool False) kw,
      bd_leftover kw)"
  unfolding bd_pop_args_def kw_pop_def Let_def prod.case bd_leftover_def bd_popped_keys_def
  by (simp only: kw_get_delete fold.simps o_apply id_apply list.inject char.inject simp_thms)

lemma bd_check_gsa_ValueError_iff:
  "bd_check_gsa cfg = Inl ValueError \<longleftrightarrow>
     (\<not> is_none (gsa_ntax cfg) \<and>
        (is_none (target_num_extant_tips cfg) \<or> \<not> is_none (target_num_extinct_tips cfg)
          \<or> \<not> is_none (target_num_total_tips cfg)
          \<or> py_lt (gsa_ntax cfg) (target_num_extant_tips cfg) = Inr True))"
  by (auto simp: bd_check_gsa_def py_lt_def split: sum.splits option.splits)

lemma fold_delete_filter:
  "fold AList.delete ks kw = filter (\<lambda>p. fst p \<notin> set ks) kw"
proof (induction ks arbitrary: kw)
  case Nil
  show ?case by simp
next
  case (Cons k ks)
  have "AList.delete k kw = filter (\<lambda>p. fst p \<noteq> k) kw"
    by (simp add: AList.delete_eq split_def) (metis)
  then show ?case using Cons.IH by (auto intro: filter_cong)
qed

lemma bd_leftover_filter:
  "bd_leftover kwargs = filter (\<lambda>p. fst p \<notin> set bd_popped_keys) kwargs"
  unfolding bd_leftover_def by (rule fold_delete_filter)

lemma kw_in_fst: "kw_in k kwargs \<longleftrightarrow> k \<in> fst ` set kwargs"
proof -
  have "map_of kwargs k = None \<longleftrightarrow> k \<notin> fst ` set kwargs" by (rule map_of_eq_None_iff)
  then show ?thesis by (cases "map_of kwargs k") (auto simp: kw_in_def)
qed

lemma bd_leftover_unrecognized:
  assumes "\<not> kw_in ''tree'' kwargs" "\<not> kw_in ''taxon_namespace'' kwargs"
  shows "bd_leftover kwargs \<noteq> [] \<longleftrightarrow> unrecognized_keyword kwargs"
proof -
  have "\<And>p. p \<in> set kwargs \<Longrightarrow> fst p \<noteq> ''tree'' \<and> fst p \<noteq> ''taxon_namespace''"
    using assms unfolding kw_in_fst by (metis imageI)
  then have "(\<exists>p\<in>set kwargs. fst p \<notin> set bd_popped_keys)
              \<longleftrightarrow> (\<exists>p\<in>set kwargs. fst p \<notin> set bd_known_keys)"
    unfolding bd_known_keys_def by auto
  then show ?thesis
    unfolding bd_leftover_filter unrecognized_keyword_def list_ex_iff filter_empty_conv by blast
qed

lemma kw_given_in: "kw_given k kwargs \<Longrightarrow> kw_in k kwargs"
  by (auto simp: kw_given_def kw_in_def kw_get_def split: option.splits)

text \<open>All the ways in which lines 132 to 183 raise \<^verbatim>\<open>ValueError\<close>, for every call.\<close>

lemma bd_validate_ValueError_cases:
  "bd_validate G kwargs = Inl ValueError \<longleftrightarrow>
     (kw_in ''assign_taxa'' kwargs \<or> kw_in ''ntax'' kwargs
      \<or> (\<not> kw_in ''num_extant_tips'' kwargs \<and> \<not> kw_in ''num_extinct_tips'' kwargs
          \<and> \<not> kw_in ''num_total_tips'' kwargs \<and> \<not> kw_in ''max_time'' kwargs)
      \<or> (bd_leftover kwargs \<noteq> []
          \<and> \<not> truthy (kw_get ''ignore_unrecognized_keyword_arguments'' (PyBool False) kwargs))
      \<or> (kw_given ''gsa_ntax'' kwargs
          \<and> (kw_given ''num_extinct_tips'' kwargs \<or> kw_given ''num_total_tips'' kwargs
              \<or> py_lt (kw_get ''gsa_ntax'' PyNone kwargs) (kw_get ''num_extant_tips'' PyNone kwargs)
                   = Inr True
              \<or> \<not> kw_given ''num_extant_tips'' kwargs)))"
  unfolding bd_validate_def bd_pop_args_eq prod.case kw_given_def
  using bd_check_gsa_ValueError_iff
  by (auto simp: bd_check_gsa_ValueError_iff)

text \<open>
  Claim C6, as the code has it. For a call that passes neither \<^verbatim>\<open>tree\<close> nor
  \<^verbatim>\<open>taxon_namespace\<close> and no termination keyword with the value \<^verbatim>\<open>None\<close>, the
  argument checks of \<^verbatim>\<open>birth_death_tree\<close> (lines 132 to 183, before any tree is
  created or touched) raise \<^verbatim>\<open>ValueError\<close> if and only if: one of the four conditions
  of the specification holds; or one of the retired keywords \<^verbatim>\<open>assign_taxa\<close> and
  \<^verbatim>\<open>ntax\<close> is passed; or a keyword is passed that the function does not know, while
  \<^verbatim>\<open>ignore_unrecognized_keyword_arguments\<close> is not true.
\<close>

theorem bd_validate_ValueError_iff:
  assumes no_tree: "\<not> kw_in ''tree'' kwargs" "\<not> kw_in ''taxon_namespace'' kwargs"
    and not_None: "\<forall>k\<in>set bd_termination_keys. kw_in k kwargs \<longrightarrow> kw_given k kwargs"
  shows "bd_validate G kwargs = Inl ValueError \<longleftrightarrow>
     (spec_invalid_configuration kwargs
      \<or> kw_in ''assign_taxa'' kwargs \<or> kw_in ''ntax'' kwargs
      \<or> (unrecognized_keyword kwargs
          \<and> \<not> truthy (kw_get ''ignore_unrecognized_keyword_arguments'' (PyBool False) kwargs)))"
proof -
  have g: "kw_in ''num_extant_tips'' kwargs = kw_given ''num_extant_tips'' kwargs"
       "kw_in ''num_extinct_tips'' kwargs = kw_given ''num_extinct_tips'' kwargs"
       "kw_in ''num_total_tips'' kwargs = kw_given ''num_total_tips'' kwargs"
       "kw_in ''max_time'' kwargs = kw_given ''max_time'' kwargs"
    using not_None kw_given_in unfolding bd_termination_keys_def by auto
  show ?thesis
    unfolding bd_validate_ValueError_cases bd_leftover_unrecognized[OF no_tree] g
      spec_invalid_configuration_def
    by blast
qed

theorem bd_validate_ValueError_iff_witness:
  "bd_validate example_rng [(''num_extant_tips'', PyInt 5), (''gsa_ntax'', PyInt 3)] = Inl ValueError"
proof -
  let ?kw = "[(''num_extant_tips'', PyInt 5), (''gsa_ntax'', PyInt 3)]"
  have a: "\<not> kw_in ''tree'' ?kw" and b: "\<not> kw_in ''taxon_namespace'' ?kw"
    by (simp_all add: kw_in_def)
  have c: "\<forall>k\<in>set bd_termination_keys. kw_in k ?kw \<longrightarrow> kw_given k ?kw"
    by (simp add: bd_termination_keys_def kw_in_def kw_given_def kw_get_def)
  have d: "spec_invalid_configuration ?kw"
    by (simp add: spec_invalid_configuration_def kw_given_def kw_get_def py_lt_def)
  show ?thesis using bd_validate_ValueError_iff [OF a b c, of example_rng] d by blast
qed

text \<open>
  Passing \<^verbatim>\<open>num_extant_tips=5, ntax=5\<close> raises \<^verbatim>\<open>ValueError\<close> although none of the four
  listed conditions holds.
\<close>

theorem bd_validate_spec_counterexample:
  "bd_validate example_rng [(''num_extant_tips'', PyInt 5), (''ntax'', PyInt 5)] = Inl ValueError
   \<and> \<not> spec_invalid_configuration [(''num_extant_tips'', PyInt 5), (''ntax'', PyInt 5)]"
  by (simp add: bd_validate_def kw_in_def spec_invalid_configuration_def kw_given_def kw_get_def)

section \<open>Choice of the time slice and caller-supplied trees\<close>

lemma gsa_select_loop_last:
  "slices \<noteq> [] \<Longrightarrow> r - sum_list (map fst slices) < 0
     \<Longrightarrow> gsa_select_loop r sel slices = Some (last slices)"
proof (induction slices arbitrary: r sel)
  case Nil
  then show ?case by simp
next
  case (Cons i rest)
  show ?case
  proof (cases "rest = []")
    case True
    then show ?thesis using Cons.prems by simp
  next
    case False
    have "r - fst i - sum_list (map fst rest) < 0" using Cons.prems by simp
    then show ?thesis using Cons.IH[OF False] False by simp
  qed
qed

lemma gsa_select_slice_last:
  assumes "u < 1" and "0 < sum_list (map fst slices)"
  shows "gsa_select_slice u slices = Inr (last slices)"
proof -
  have ne: "slices \<noteq> []" using assms(2) by auto
  have "u * sum_list (map fst slices) - sum_list (map fst slices) = (u - 1) * sum_list (map fst slices)"
    by (simp add: algebra_simps)
  also have "\<dots> < 0" using assms by (simp add: mult_less_0_iff)
  finally show ?thesis
    using gsa_select_loop_last[OF ne] by (simp add: gsa_select_slice_def)
qed

text \<open>
  Claim C2 on the code. With two recorded slices of duration \<open>1\<close> each and the uniform
  draw \<open>1/4\<close>, the first slice is the first whose cumulative duration (\<open>1\<close>) exceeds
  \<open>1/4\<close> of the total (\<open>1/2\<close>); the loop of lines 333 to 336 has no \<^verbatim>\<open>break\<close> and
  returns the second slice. By \<open>gsa_select_slice_last\<close> it returns the last slice
  for every draw below \<open>1\<close>.
\<close>

theorem gsa_select_slice_takes_last:
  "gsa_select_slice (1 / 4) [(1, [(0, Some 0)]), (1, [(1, Some 2)])] = Inr (1, [(1, Some 2)])
   \<and> spec_select_slice (1 / 4) [(1, [(0, Some 0)]), (1, [(1, Some 2)])] = Some (1, [(0, Some 0)])"
  by (simp add: gsa_select_slice_def spec_select_slice_def)

text \<open>
  The loop over the leaves of a caller-supplied tree: a leaf without a true flag raises
  \<^verbatim>\<open>AttributeError\<close>, and a leaf whose flag is true is put into the extant set.
\<close>

theorem bd_partition_leaves_inverted:
  "bd_partition_leaves cfg [Node 0 []] (\<lambda>i. new_node_attrs) [] [] = Inl AttributeError
   \<and> bd_partition_leaves cfg [Node 0 []]
        ((\<lambda>i. new_node_attrs)(0 := new_node_attrs\<lparr>extinct_attr := Some (AttrBool True)\<rparr>)) [] []
      = Inr (set_extinct_attr cfg 0 (AttrBool False)
               ((\<lambda>i. new_node_attrs)(0 := new_node_attrs\<lparr>extinct_attr := Some (AttrBool True)\<rparr>)),
             [0], [])"
  by (simp add: new_node_attrs_def set_add_def)

lemma bd_validate_supplied_tree:
  "bd_validate G [(''num_extant_tips'', PyInt 2),
        (''tree'', PyTree tr),
        (''ignore_unrecognized_keyword_arguments'', PyBool True)] =
     Inr \<lparr>target_num_extant_tips = PyInt 2,
            target_num_extinct_tips = PyNone,
            target_num_total_tips = PyNone,
            max_time = PyNone,
            gsa_ntax = PyNone,
            is_add_extinct_attr = PyBool True,
            extinct_attr_name = PyStr ''is_extinct'',
            is_retain_extinct_tips = PyBool False,
            is_assign_extant_taxa = PyBool True,
            is_assign_extinct_taxa = PyBool True,
            repeat_until_success = PyBool True,
            tree_kw = PyTree tr,
            taxon_namespace_kw = PyNone,
            rng_kw = PyRng G,
            terminate_at_full_tree = True\<rparr>"
  unfolding bd_validate_def bd_pop_args_eq prod.case
  by (simp add: kw_in_def kw_get_def bd_check_gsa_def)

text \<open>
  Claim C3 on the code. \<^verbatim>\<open>birth_death_tree\<close> called with a caller-supplied tree of a
  single node that carries no extinction flag (so a leaf that the claim puts into the
  extant set) raises \<^verbatim>\<open>AttributeError\<close>, whatever the other arguments are.
\<close>

theorem birth_death_tree_supplied_tree:
  "birth_death_tree fuel ord G args
     [(''num_extant_tips'', PyInt 2),
      (''tree'', PyTree \<lparr>seed_node = Node 0 [], node_store = (\<lambda>i. new_node_attrs),
                          tree_namespace = \<lparr>ns_id = 0, ns_labels = []\<rparr>\<rparr>),
      (''ignore_unrecognized_keyword_arguments'', PyBool True)]
   = Some (Inl AttributeError)"
  unfolding birth_death_tree_def bd_validate_supplied_tree
  by (simp add: bd_init_def new_node_attrs_def)

section \<open>The loop of the continuous-time simulator\<close>

lemma bd_check_gsa_Inr:
  assumes "bd_check_gsa cfg0 = Inr cfg"
  shows "cfg = cfg0\<lparr>terminate_at_full_tree := (if is_none (gsa_ntax cfg0) then True
                                                  else terminate_at_full_tree cfg0)\<rparr>"
  using assms by (auto simp: bd_check_gsa_def split: if_splits sum.splits)

lemma bd_validate_Inr:
  assumes "bd_validate G kwargs = Inr cfg"
  shows "terminate_at_full_tree cfg = is_none (gsa_ntax cfg)"
    and "repeat_until_success cfg = kw_get ''repeat_until_success'' (PyBool True) kwargs"
    and "gsa_ntax cfg = kw_get ''gsa_ntax'' PyNone kwargs"
proof -
  let ?cfg0 = "fst (bd_pop_args G kwargs)"
  from assms have c: "bd_check_gsa ?cfg0 = Inr cfg"
    unfolding bd_validate_def by (auto split: if_splits prod.splits)
  have t0: "terminate_at_full_tree ?cfg0 = False"
       "repeat_until_success ?cfg0 = kw_get ''repeat_until_success'' (PyBool True) kwargs"
       "gsa_ntax ?cfg0 = kw_get ''gsa_ntax'' PyNone kwargs"
    by (simp_all add: bd_pop_args_eq)
  from bd_check_gsa_Inr[OF c] t0
  show "terminate_at_full_tree cfg = is_none (gsa_ntax cfg)"
    and "repeat_until_success cfg = kw_get ''repeat_until_success'' (PyBool True) kwargs"
    and "gsa_ntax cfg = kw_get ''gsa_ntax'' PyNone kwargs"
    by (auto split: if_splits)
qed

lemma bd_death_not_SliceRecorded: "bd_death env nd st \<noteq> Break SliceRecorded st'"
  by (simp add: bd_death_def)

lemma bd_event_not_SliceRecorded: "bd_event env rates nodes rate st \<noteq> Break SliceRecorded st'"
  by (auto simp: bd_event_def bd_death_not_SliceRecorded Let_def split: sum.splits prod.splits)

lemma bd_step_not_SliceRecorded:
  assumes "terminate_at_full_tree (env_cfg env) = is_none (gsa_ntax (env_cfg env))"
  shows "bd_step env st \<noteq> Break SliceRecorded st'"
  using assms
  by (auto simp: bd_step_def Let_def bd_event_not_SliceRecorded split: sum.splits prod.splits)

lemma bd_loop_not_SliceRecorded:
  assumes "terminate_at_full_tree (env_cfg env) = is_none (gsa_ntax (env_cfg env))"
  shows "bd_loop fuel env st \<noteq> Some (Inr (SliceRecorded, st'))"
proof (induction fuel arbitrary: st)
  case 0
  show ?case by simp
next
  case (Suc fuel)
  show ?case
    using Suc.IH bd_step_not_SliceRecorded[OF assms]
    by (cases "bd_step env st") auto
qed

text \<open>
  Claim C9. For every configuration that passes the argument checks, no iteration of the
  loop leaves through the \<^verbatim>\<open>break\<close> inside the block that records a time slice, and
  so the loop never ends there.
\<close>

theorem break_on_slice_recording_unreachable:
  assumes "bd_validate G kwargs = Inr (env_cfg env)"
  shows "bd_step env st \<noteq> Break SliceRecorded st'
         \<and> bd_loop fuel env st \<noteq> Some (Inr (SliceRecorded, st'))"
  using bd_step_not_SliceRecorded bd_loop_not_SliceRecorded bd_validate_Inr(1)[OF assms]
  by blast

lemma bd_validate_extant_gsa:
  "bd_validate G [(''num_extant_tips'', PyInt 1), (''gsa_ntax'', PyInt 2)]
     = Inr (extant_target_cfg 1 (PyInt 2) G)"
  unfolding bd_validate_def bd_pop_args_eq prod.case
  by (simp add: kw_in_def kw_get_def bd_check_gsa_def bd_leftover_def bd_popped_keys_def
      extant_target_cfg_def py_lt_def)

lemma bd_validate_extant:
  "bd_validate G [(''num_extant_tips'', PyInt n)] = Inr (extant_target_cfg n PyNone G)"
  unfolding bd_validate_def bd_pop_args_eq prod.case
  by (simp add: kw_in_def kw_get_def bd_check_gsa_def bd_leftover_def bd_popped_keys_def
      extant_target_cfg_def)

lemma bd_init_fresh:
  "bd_init args (extant_target_cfg n g r) = Inr (fresh_state args (extant_target_cfg n g r) r)"
  by (simp add: bd_init_def extant_target_cfg_def fresh_state_def)

lemma step_gsa:
  "map_option (\<lambda>s. length (targetted_time_slices s))
     (step_state (bd_step (bd_make_env (\<lambda>xs. xs) pure_birth_args (extant_target_cfg 1 (PyInt 2) example_rng)
              (fresh_state pure_birth_args (extant_target_cfg 1 (PyInt 2) example_rng) example_rng))
       (fresh_state pure_birth_args (extant_target_cfg 1 (PyInt 2) example_rng) example_rng)))
    = Some 1"
  by (simp add: bd_step_def bd_make_env_def fresh_state_def extant_target_cfg_def pure_birth_args_def
     example_rng_def bd_should_stop_def py_ge_def reached_def default_rates_def event_rates_of_def
     event_nodes_of_def node_birth_rate_def node_death_rate_def rng_expovariate_def py_eq_num_def
     edge_and_start_length_def add_waiting_time_def bd_event_def weighted_choice_def rng_uniform01_def
     rng_random_def set_remove_def bd_birth_def rng_gauss_def set_extinct_attr_def new_node_attrs_def
     new_child_def set_add_def Let_def)

theorem break_on_slice_recording_unreachable_witness:
  "bd_validate example_rng [(''num_extant_tips'', PyInt 1), (''gsa_ntax'', PyInt 2)]
     = Inr (env_cfg (bd_make_env id pure_birth_args (extant_target_cfg 1 (PyInt 2) example_rng)
              (fresh_state pure_birth_args (extant_target_cfg 1 (PyInt 2) example_rng) example_rng)))
   \<and> bd_step (bd_make_env id pure_birth_args (extant_target_cfg 1 (PyInt 2) example_rng)
              (fresh_state pure_birth_args (extant_target_cfg 1 (PyInt 2) example_rng) example_rng))
        (fresh_state pure_birth_args (extant_target_cfg 1 (PyInt 2) example_rng) example_rng)
       \<noteq> Break SliceRecorded
            (fresh_state pure_birth_args (extant_target_cfg 1 (PyInt 2) example_rng) example_rng)
   \<and> bd_loop 1 (bd_make_env id pure_birth_args (extant_target_cfg 1 (PyInt 2) example_rng)
              (fresh_state pure_birth_args (extant_target_cfg 1 (PyInt 2) example_rng) example_rng))
        (fresh_state pure_birth_args (extant_target_cfg 1 (PyInt 2) example_rng) example_rng)
       \<noteq> Some (Inr (SliceRecorded,
            fresh_state pure_birth_args (extant_target_cfg 1 (PyInt 2) example_rng) example_rng))"
proof -
  have v: "bd_validate example_rng [(''num_extant_tips'', PyInt 1), (''gsa_ntax'', PyInt 2)]
     = Inr (env_cfg (bd_make_env id pure_birth_args (extant_target_cfg 1 (PyInt 2) example_rng)
              (fresh_state pure_birth_args (extant_target_cfg 1 (PyInt 2) example_rng) example_rng)))"
    by (simp add: bd_validate_extant_gsa bd_make_env_def)
  show ?thesis
    using v break_on_slice_recording_unreachable [OF v] by blast
qed






section \<open>Restart after a total extinction\<close>

lemma update_node_same: "node_id n = i \<Longrightarrow> update_node i f n = f n"
  by (cases n) simp

lemma clear_child_nodes_cleared:
  "n \<in> set (preorder_nodes (clear_child_nodes i t)) \<Longrightarrow> node_id n = i \<Longrightarrow> child_nodes n = []"
  unfolding clear_child_nodes_def
proof (induction t arbitrary: n)
  case (Node j cs)
  show ?case
  proof (cases "i = j")
    case True
    then show ?thesis using Node.prems by auto
  next
    case False
    from Node.prems(1) False
    consider "n = Node j (map (update_node i (\<lambda>n. Node (node_id n) [])) cs)"
      | c where "c \<in> set cs" "n \<in> set (preorder_nodes (update_node i (\<lambda>n. Node (node_id n) []) c))"
      by auto
    then show ?thesis
    proof cases
      case 1
      then have "node_id n = j" by simp
      then show ?thesis using False Node.prems(2) by simp
    next
      case 2
      then show ?thesis using Node.IH[OF 2(1) 2(2) Node.prems(2)] by simp
    qed
  qed
qed

lemma clear_child_nodes_keeps_cleared:
  assumes "\<forall>n\<in>set (preorder_nodes t). node_id n \<in> A \<longrightarrow> child_nodes n = []"
    and "n \<in> set (preorder_nodes (clear_child_nodes i t))" and "node_id n \<in> A"
  shows "child_nodes n = []"
  using assms unfolding clear_child_nodes_def
proof (induction t arbitrary: n)
  case (Node j cs)
  show ?case
  proof (cases "i = j")
    case True
    then show ?thesis using Node.prems by auto
  next
    case False
    from Node.prems(2) False
    consider "n = Node j (map (update_node i (\<lambda>n. Node (node_id n) [])) cs)"
      | c where "c \<in> set cs" "n \<in> set (preorder_nodes (update_node i (\<lambda>n. Node (node_id n) []) c))"
      by auto
    then show ?thesis
    proof cases
      case 1
      have "Node j cs \<in> set (preorder_nodes (Node j cs))" by simp
      then have "cs = []" using Node.prems(1,3) 1 by fastforce
      then show ?thesis using 1 by simp
    next
      case 2
      have "\<forall>n\<in>set (preorder_nodes c). node_id n \<in> A \<longrightarrow> child_nodes n = []"
        using Node.prems(1) 2(1) by auto
      then show ?thesis using Node.IH[OF 2(1) _ 2(2) Node.prems(3)] by blast
    qed
  qed
qed

lemma restart_fold_tree:
  "\<forall>n\<in>set (preorder_nodes (fst (fold (\<lambda>nd (t, s). (clear_child_nodes nd t, g nd s)) nds (t0, s0)))).
      node_id n \<in> set nds \<longrightarrow> child_nodes n = []"
proof (induction nds rule: rev_induct)
  case Nil
  show ?case by simp
next
  case (snoc x xs)
  obtain t1 s1 where f: "fold (\<lambda>nd (t, s). (clear_child_nodes nd t, g nd s)) xs (t0, s0) = (t1, s1)"
    by (cases "fold (\<lambda>nd (t, s). (clear_child_nodes nd t, g nd s)) xs (t0, s0)")
  have ih: "\<forall>n\<in>set (preorder_nodes t1). node_id n \<in> set xs \<longrightarrow> child_nodes n = []"
    using snoc.IH f by simp
  show ?case
  proof (intro ballI impI)
    fix n
    assume n: "n \<in> set (preorder_nodes (fst (fold (\<lambda>nd (t, s). (clear_child_nodes nd t, g nd s)) (xs @ [x]) (t0, s0))))"
      and m: "node_id n \<in> set (xs @ [x])"
    from n f have n': "n \<in> set (preorder_nodes (clear_child_nodes x t1))" by simp
    show "child_nodes n = []"
    proof (cases "node_id n = x")
      case True
      then show ?thesis using clear_child_nodes_cleared[OF n'] by simp
    next
      case False
      then have "node_id n \<in> set xs" using m by simp
      then show ?thesis using clear_child_nodes_keeps_cleared[OF ih n'] by simp
    qed
  qed
qed

lemma restart_fold_store:
  assumes "truthy (is_add_extinct_attr cfg)" and "i \<in> set nds"
  shows "extinct_attr (snd (fold (\<lambda>nd (t, s). (h nd t, set_extinct_attr cfg nd (AttrBool False) s)) nds (t0, s0)) i)
           = Some (AttrBool False)"
  using assms(2)
proof (induction nds rule: rev_induct)
  case Nil
  then show ?case by simp
next
  case (snoc x xs)
  obtain t1 s1 where f: "fold (\<lambda>nd (t, s). (h nd t, set_extinct_attr cfg nd (AttrBool False) s)) xs (t0, s0) = (t1, s1)"
    by (cases "fold (\<lambda>nd (t, s). (h nd t, set_extinct_attr cfg nd (AttrBool False) s)) xs (t0, s0)")
  have step: "snd (fold (\<lambda>nd (t, s). (h nd t, set_extinct_attr cfg nd (AttrBool False) s)) (xs @ [x]) (t0, s0))
      = set_extinct_attr cfg x (AttrBool False) s1"
    using f by simp
  show ?case
  proof (cases "i = x")
    case True
    then show ?thesis unfolding step using assms(1) by (simp add: set_extinct_attr_def)
  next
    case False
    then have "i \<in> set xs" using snoc.prems by simp
    then have "extinct_attr (s1 i) = Some (AttrBool False)" using snoc.IH f by simp
    then show ?thesis unfolding step using False by (simp add: set_extinct_attr_def)
  qed
qed

text \<open>
  What the restart does reset. When the last lineage dies, retry is on and no recorded
  time slice can be used, the death raises nothing and the run goes on from a restart:
  the extant and the extinct set hold the node objects again that they held before the
  run (the snapshot copies the sets, not the nodes), every node of the tree that is in
  the restored extant set has no children, its extinction flag is false again when
  flags are recorded, and the elapsed time is zero.
\<close>

theorem total_extinction_restart:
  assumes last_lineage: "extant_tips st = []"
    and retry: "truthy (repeat_until_success (env_cfg env))"
    and no_slice: "is_none (gsa_ntax (env_cfg env)) \<or> targetted_time_slices st = []"
    and ord: "set (set_order env (initial_extant_tip_set env)) = set (initial_extant_tip_set env)"
  shows "bd_death env nd st = Continue (bd_restart env st)
         \<and> extant_tips (bd_restart env st) = initial_extant_tip_set env
         \<and> extinct_tips (bd_restart env st) = initial_extinct_tip_set env
         \<and> total_time (bd_restart env st) = 0
         \<and> (\<forall>n\<in>set (preorder_nodes (tree (bd_restart env st))).
               node_id n \<in> set (initial_extant_tip_set env) \<longrightarrow> child_nodes n = [])
         \<and> (truthy (is_add_extinct_attr (env_cfg env)) \<longrightarrow>
              (\<forall>i\<in>set (initial_extant_tip_set env).
                 extinct_attr (store (bd_restart env st) i) = Some (AttrBool False)))"
proof -
  let ?F = "\<lambda>nd (t, s). (clear_child_nodes nd t, set_extinct_attr (env_cfg env) nd (AttrBool False) s)"
  let ?r = "fold ?F (set_order env (initial_extant_tip_set env)) (tree st, store st)"
  have d: "bd_death env nd st = Continue (bd_restart env st)"
    using last_lineage retry no_slice by (auto simp: bd_death_def)
  have t: "tree (bd_restart env st) = fst ?r" and s: "store (bd_restart env st) = snd ?r"
    by (simp_all add: bd_restart_def Let_def split: prod.splits)
  have c: "\<forall>n\<in>set (preorder_nodes (tree (bd_restart env st))).
               node_id n \<in> set (initial_extant_tip_set env) \<longrightarrow> child_nodes n = []"
    unfolding t
    using restart_fold_tree[of "\<lambda>nd. set_extinct_attr (env_cfg env) nd (AttrBool False)"
        "set_order env (initial_extant_tip_set env)" "tree st" "store st"] ord
    by simp
  have a: "truthy (is_add_extinct_attr (env_cfg env)) \<longrightarrow>
              (\<forall>i\<in>set (initial_extant_tip_set env).
                 extinct_attr (store (bd_restart env st) i) = Some (AttrBool False))"
    unfolding s
    using restart_fold_store[of "env_cfg env" _ "set_order env (initial_extant_tip_set env)"
        clear_child_nodes "tree st" "store st"] ord
    by simp
  show ?thesis
    using d c a by (simp add: bd_restart_def Let_def split: prod.splits)
qed

lemmas bd_eval =
  bd_step_def bd_make_env_def fresh_state_def extant_target_cfg_def
  bd_should_stop_def py_ge_def py_le_def reached_def default_rates_def event_rates_of_def
  event_nodes_of_def node_birth_rate_def node_death_rate_def rng_expovariate_def py_eq_num_def
  edge_and_start_length_def add_waiting_time_def bd_event_def weighted_choice_def rng_uniform01_def
  rng_random_def set_remove_def bd_birth_def bd_death_def bd_restart_def rng_gauss_def
  set_extinct_attr_def new_node_attrs_def new_child_def clear_child_nodes_def set_add_def
  edge_length_of_def Let_def

theorem total_extinction_restart_example:
  "bd_death (bd_make_env id birth_death_args (extant_target_cfg 2 PyNone example_rng)
               (fresh_state birth_death_args (extant_target_cfg 2 PyNone example_rng) example_rng))
        0 ((fresh_state birth_death_args (extant_target_cfg 2 PyNone example_rng) example_rng)
             \<lparr>extant_tips := []\<rparr>)
     = Continue (bd_restart (bd_make_env id birth_death_args (extant_target_cfg 2 PyNone example_rng)
               (fresh_state birth_death_args (extant_target_cfg 2 PyNone example_rng) example_rng))
         ((fresh_state birth_death_args (extant_target_cfg 2 PyNone example_rng) example_rng)
             \<lparr>extant_tips := []\<rparr>))
   \<and> extant_tips (bd_restart (bd_make_env id birth_death_args (extant_target_cfg 2 PyNone example_rng)
               (fresh_state birth_death_args (extant_target_cfg 2 PyNone example_rng) example_rng))
         ((fresh_state birth_death_args (extant_target_cfg 2 PyNone example_rng) example_rng)
             \<lparr>extant_tips := []\<rparr>)) = [0]
   \<and> total_time (bd_restart (bd_make_env id birth_death_args (extant_target_cfg 2 PyNone example_rng)
               (fresh_state birth_death_args (extant_target_cfg 2 PyNone example_rng) example_rng))
         ((fresh_state birth_death_args (extant_target_cfg 2 PyNone example_rng) example_rng)
             \<lparr>extant_tips := []\<rparr>)) = 0"
proof -
  let ?S = "fresh_state birth_death_args (extant_target_cfg 2 PyNone example_rng) example_rng"
  let ?E = "bd_make_env id birth_death_args (extant_target_cfg 2 PyNone example_rng) ?S"
  have h1: "extant_tips (?S\<lparr>extant_tips := []\<rparr>) = []" by simp
  have h2: "truthy (repeat_until_success (env_cfg ?E))"
    by (simp add: bd_make_env_def extant_target_cfg_def)
  have h3: "is_none (gsa_ntax (env_cfg ?E)) \<or> targetted_time_slices (?S\<lparr>extant_tips := []\<rparr>) = []"
    by (simp add: bd_make_env_def extant_target_cfg_def)
  have h4: "set (set_order ?E (initial_extant_tip_set ?E)) = set (initial_extant_tip_set ?E)"
    by (simp add: bd_make_env_def)
  have i: "initial_extant_tip_set ?E = [0]" by (simp add: bd_make_env_def fresh_state_def)
  from total_extinction_restart [OF h1 h2 h3 h4, of 0] i show ?thesis by simp
qed

text \<open>
  What it does not reset. A run on a new tree with birth rate \<open>1\<close> and death rate
  \<open>1\<close>: the first event, after a waiting time of \<open>1/2\<close>, is the death of the seed
  node. After the restart the sets and the clock are as before the run, but the edge of
  the restored node has length \<open>1/2\<close>; before the run it had length \<open>0\<close>.
\<close>

theorem restart_keeps_edge_length:
  "edge_length_of 0 (fresh_state birth_death_args (extant_target_cfg 2 PyNone example_rng) example_rng)
     = Some 0
   \<and> map_option (edge_length_of 0)
       (step_state (bd_step
          (bd_make_env id birth_death_args (extant_target_cfg 2 PyNone example_rng)
             (fresh_state birth_death_args (extant_target_cfg 2 PyNone example_rng) example_rng))
          (fresh_state birth_death_args (extant_target_cfg 2 PyNone example_rng) example_rng)))
     = Some (Some (1 / 2))
   \<and> map_option extant_tips
       (step_state (bd_step
          (bd_make_env id birth_death_args (extant_target_cfg 2 PyNone example_rng)
             (fresh_state birth_death_args (extant_target_cfg 2 PyNone example_rng) example_rng))
          (fresh_state birth_death_args (extant_target_cfg 2 PyNone example_rng) example_rng)))
     = Some [0]
   \<and> map_option total_time
       (step_state (bd_step
          (bd_make_env id birth_death_args (extant_target_cfg 2 PyNone example_rng)
             (fresh_state birth_death_args (extant_target_cfg 2 PyNone example_rng) example_rng))
          (fresh_state birth_death_args (extant_target_cfg 2 PyNone example_rng) example_rng)))
     = Some 0"
  by (simp add: bd_eval birth_death_args_def example_rng_def)

lemma bd_loop_numeral:
  "bd_loop (numeral k) env st =
     (case bd_step env st of
        Raise e \<Rightarrow> Some (Inl e)
      | Break site st' \<Rightarrow> Some (Inr (site, st'))
      | Continue st' \<Rightarrow> bd_loop (pred_numeral k) env st')"
  by (simp add: numeral_eq_Suc)

text \<open>
  Claim C5 on the code. \<^verbatim>\<open>birth_death_tree(1, 1, num_extant_tips=2)\<close> on a new tree,
  every exponential draw \<open>1\<close>. With the uniform draws \<open>3/4, 1/4, \<dots>\<close> the first event
  is the death of the seed node after a waiting time of \<open>1/2\<close>, the run restarts, and
  the second event is a birth after another \<open>1/2\<close>. The call returns a tree whose root
  edge has length \<open>1\<close> and whose paths from the root to the two tips sum to \<open>1\<close>,
  while the elapsed time is \<open>1/2\<close>: the waiting time of the abandoned attempt is
  still on the edge of the seed node. A new run on the draws that the restart has left
  (uniform draws \<open>1/4, \<dots>\<close>) returns the root edge \<open>1/2\<close> and paths that sum to
  the elapsed time \<open>1/2\<close>.
\<close>

theorem retried_run_keeps_waiting_time:
  "returned_root_length (birth_death_tree 3 id death_then_birth_rng birth_death_args
       [(''num_extant_tips'', PyInt 2)]) = Some 1
   \<and> returned_path_lengths (birth_death_tree 3 id death_then_birth_rng birth_death_args
       [(''num_extant_tips'', PyInt 2)]) = Some [1, 1]
   \<and> returned_total_time (birth_death_tree 3 id death_then_birth_rng birth_death_args
       [(''num_extant_tips'', PyInt 2)]) = Some (1 / 2)
   \<and> returned_root_length (birth_death_tree 3 id birth_rng birth_death_args
       [(''num_extant_tips'', PyInt 2)]) = Some (1 / 2)
   \<and> returned_path_lengths (birth_death_tree 3 id birth_rng birth_death_args
       [(''num_extant_tips'', PyInt 2)]) = Some [1 / 2, 1 / 2]
   \<and> returned_total_time (birth_death_tree 3 id birth_rng birth_death_args
       [(''num_extant_tips'', PyInt 2)]) = Some (1 / 2)"
  unfolding birth_death_tree_def bd_validate_extant
  apply (simp only: bd_init_fresh sum.case)
  apply (simp add: bd_loop_numeral bd_eval birth_death_args_def death_then_birth_rng_def birth_rng_def)
  apply (simp add: bd_finish_def bd_gsa_finalize_def bd_postprocess_def suppress_unifurcations_def
     bd_assign_taxa_def require_taxon_def bd_make_env_def the_length_def Let_def)
  done

section \<open>Generators and the order of sets\<close>

lemma kw_get_present: "kw_in k kwargs \<Longrightarrow> kw_get k d kwargs = kw_get k d' kwargs"
  by (simp add: kw_in_def kw_get_def split: option.splits)

lemma bd_validate_global_rng:
  assumes "kw_in ''rng'' kwargs"
  shows "bd_validate G1 kwargs = bd_validate G2 kwargs"
  unfolding bd_validate_def bd_pop_args_eq
  using kw_get_present[OF assms, of "PyRng G1" "PyRng G2"] by simp

lemma dd_validate_global_rng:
  assumes "kw_in ''rng'' kwargs"
  shows "dd_validate G1 kwargs = dd_validate G2 kwargs"
  unfolding dd_validate_def kw_get_present[OF assms, of "PyRng G1" "PyRng G2"]
  by (rule refl)

text \<open>
  What does hold. When \<^verbatim>\<open>rng\<close> is passed, the result of \<^verbatim>\<open>birth_death_tree\<close> and
  of \<^verbatim>\<open>discrete_birth_death_tree\<close> does not depend on the module-level generator,
  whatever its state is at the call.
\<close>

theorem supplied_rng_is_the_only_generator:
  assumes "kw_in ''rng'' kwargs"
  shows "birth_death_tree fuel ord G1 args kwargs = birth_death_tree fuel ord G2 args kwargs
         \<and> discrete_birth_death_tree fuel lib G1 args kwargs
             = discrete_birth_death_tree fuel lib G2 args kwargs"
  unfolding birth_death_tree_def discrete_birth_death_tree_def
  using bd_validate_global_rng[OF assms, of G1 G2] dd_validate_global_rng[OF assms, of G1 G2]
  by simp

lemma bd_validate_extant_rng:
  "bd_validate G [(''num_extant_tips'', PyInt n), (''rng'', PyRng r)] = Inr (extant_target_cfg n PyNone r)"
  unfolding bd_validate_def bd_pop_args_eq prod.case
  by (simp add: kw_in_def kw_get_def bd_check_gsa_def bd_leftover_def bd_popped_keys_def
      extant_target_cfg_def)

lemma run_in_insertion_order:
  "returned_height (birth_death_tree 4 id example_rng pure_birth_args
       [(''num_extant_tips'', PyInt 4), (''rng'', PyRng example_rng)]) = Some 3"
  unfolding birth_death_tree_def bd_validate_extant_rng
  apply (simp only: bd_init_fresh sum.case)
  apply (simp add: bd_loop_numeral bd_eval pure_birth_args_def example_rng_def)
  apply (simp add: bd_finish_def bd_gsa_finalize_def bd_postprocess_def suppress_unifurcations_def
     bd_assign_taxa_def require_taxon_def bd_make_env_def Let_def)
  done

lemma rotate_2: "rotate 2 xs = rotate1 (rotate1 xs)"
  by (simp add: numeral_2_eq_2)

lemma run_in_rotated_order:
  "returned_height (birth_death_tree 4 (rotate 2) example_rng pure_birth_args
       [(''num_extant_tips'', PyInt 4), (''rng'', PyRng example_rng)]) = Some 2"
  unfolding birth_death_tree_def bd_validate_extant_rng
  apply (simp only: bd_init_fresh sum.case)
  apply (simp add: bd_loop_numeral bd_eval pure_birth_args_def example_rng_def rotate_2)
  apply (simp add: bd_finish_def bd_gsa_finalize_def bd_postprocess_def suppress_unifurcations_def
     bd_assign_taxa_def require_taxon_def bd_make_env_def Let_def rotate_2)
  done

text \<open>
  Claim C8 on the code. Two calls \<^verbatim>\<open>birth_death_tree(1, 0, num_extant_tips=4, rng=r)\<close>
  with the same arguments and the same supplied generator in the same state. The loop
  \<^verbatim>\<open>for nd in extant_tips\<close> of line 248 visits a set of node objects, in an order that
  neither the arguments nor the generator determine. Where it visits the set in the
  order of insertion, the returned tree has height \<open>3\<close>; where it visits the same set
  in another order, the returned tree has height \<open>2\<close>.
\<close>

theorem same_generator_different_trees:
  "returned_height (birth_death_tree 4 id example_rng pure_birth_args
       [(''num_extant_tips'', PyInt 4), (''rng'', PyRng example_rng)]) = Some 3
   \<and> returned_height (birth_death_tree 4 (rotate 2) example_rng pure_birth_args
       [(''num_extant_tips'', PyInt 4), (''rng'', PyRng example_rng)]) = Some 2"
  using run_in_insertion_order run_in_rotated_order by simp

theorem supplied_rng_is_the_only_generator_example:
  "birth_death_tree 4 id example_rng pure_birth_args
       [(''num_extant_tips'', PyInt 4), (''rng'', PyRng example_rng)]
   = birth_death_tree 4 id (example_rng\<lparr>unif_draws := expo_draws example_rng\<rparr>) pure_birth_args
       [(''num_extant_tips'', PyInt 4), (''rng'', PyRng example_rng)]"
proof -
  have "kw_in ''rng'' [(''num_extant_tips'', PyInt 4), (''rng'', PyRng example_rng)]"
    by (simp add: kw_in_def)
  from supplied_rng_is_the_only_generator [OF this] show ?thesis by blast
qed

section \<open>Pure-birth runs to an extant-tip target\<close>

subsection \<open>Trees of node identities\<close>



lemma preorder_nodes_self: "t \<in> set (preorder_nodes t)"
  by (cases t) simp

lemma preorder_nodes_child:
  "c \<in> set cs \<Longrightarrow> n \<in> set (preorder_nodes c) \<Longrightarrow> n \<in> set (preorder_nodes (Node j cs))"
  by auto

















subsection \<open>One iteration of the loop without deaths\<close>







lemma set_set_add: "set (set_add x s) = insert x (set s)"
  by (auto simp: set_add_def)

lemma set_add_fresh: "x \<notin> set s \<Longrightarrow> set_add x s = s @ [x]"
  by (simp add: set_add_def)













subsection \<open>The loop and the steps after it\<close>













end
